theory Spec2Isabelle
  imports Main "HOL-Library.Word" "HOL-Library.AList"
begin

unbundle bit_operations_syntax

section \<open>Basic types and protocol constants\<close>

text \<open>
  Go strings and byte slices are byte sequences; both are modelled as \<open>string\<close>
  (a list of 8-bit characters), so that the conversion \<open>[]byte(s)\<close> is the identity.
  The session status is a \<open>uint16\<close>, the capability mask and the namespace change
  index are \<open>uint32\<close>.
\<close>

type_synonym bytes = string
type_synonym uint16 = "16 word"
type_synonym uint32 = "32 word"

text \<open>
  Modelled from the spec: the constants of package \<open>mysql\<close>, which the repository
  imports and the sources read here do not include. The spec names the status bits
  \<open>AUTOCOMMIT\<close>, \<open>IN_TRANS\<close> and \<open>MORE_RESULTS_EXISTS\<close>, the capability
  \<open>CLIENT_MULTI_STATEMENTS\<close> and the plugin name \<open>caching_sha2_password\<close>; the numeric
  values are those of the MySQL wire protocol.
\<close>

definition ServerStatusInTrans :: uint16 where
  "ServerStatusInTrans = 0x0001"

definition ServerStatusAutocommit :: uint16 where
  "ServerStatusAutocommit = 0x0002"

definition ServerMoreResultsExists :: uint16 where
  "ServerMoreResultsExists = 0x0008"

definition ClientMultiStatements :: uint32 where
  "ClientMultiStatements = 0x00010000"


definition CachingSHA2Password :: string where
  "CachingSHA2Password = ''caching_sha2_password''"

section \<open>UserManager: the authentication matrix\<close>

text \<open>
  \<open>UserManager\<close> holds two Go maps. A Go map has unique keys and an unspecified
  iteration order; it is modelled as an association list whose order stands for the
  order in which \<open>range\<close> visits the entries. Lookup is \<open>map_of\<close>, assignment is
  \<open>AList.update\<close>, \<open>delete\<close> is \<open>AList.delete\<close>.
\<close>

record UserManager =
  users :: "(string \<times> string list) list"
  userNamespaces :: "(string \<times> string) list"

text \<open>The part of \<open>models.Namespace\<close> that the user manager reads.\<close>

record models_Namespace =
  Name :: string
  Users :: "(string \<times> string) list"

definition NewUserManager :: UserManager where
  "NewUserManager = \<lparr>users = [], userNamespaces = []\<rparr>"

text \<open>\<open>u.users[name]\<close>: the zero value (a nil slice) when the key is absent.\<close>

definition usersAt :: "UserManager \<Rightarrow> string \<Rightarrow> string list" where
  "usersAt u name = (case map_of (users u) name of None \<Rightarrow> [] | Some ps \<Rightarrow> ps)"

definition getUserKey :: "string \<Rightarrow> string \<Rightarrow> string" where
  "getUserKey username password = username @ '':'' @ password"

text \<open>\<open>strings.Split(key, ":")\<close>: every piece between separators, at least one piece.\<close>

fun strings_Split :: "string \<Rightarrow> string list" where
  "strings_Split [] = [[]]"
| "strings_Split (c # cs) =
     (if c = CHR '':'' then [] # strings_Split cs
      else (case strings_Split cs of
              [] \<Rightarrow> [[c]]
            | w # ws \<Rightarrow> (c # w) # ws))"

text \<open>
  \<open>getUserAndPasswordFromKey\<close> returns \<open>strs[0], strs[1]\<close>; with fewer than two
  pieces the index expression panics (\<open>None\<close>).
\<close>

definition getUserAndPasswordFromKey :: "string \<Rightarrow> (string \<times> string) option" where
  "getUserAndPasswordFromKey key =
     (case strings_Split key of
        username # password # _ \<Rightarrow> Some (username, password)
      | _ \<Rightarrow> None)"

text \<open>
  The inner loop of \<open>ClearNamespaceUsers\<close>:
  \<^verbatim>\<open>
  var s []string
  for i := range u.users[username] {
      if u.users[username][i] == password {
          s = append(u.users[username][:i], u.users[username][i+1:]...)
      }
  }
  u.users[username] = s
  \<close>
  The range expression is evaluated once, so the loop runs over the original length.
  \<open>append\<close> onto the prefix \<open>[:i]\<close> has capacity to spare and therefore writes in
  place: the elements after \<open>i\<close> move one slot to the left inside the backing array
  that \<open>u.users[username]\<close> still points to, and the last slot keeps its old content.
  The state of the loop is the backing array and the length of \<open>s\<close> (\<open>None\<close> while
  \<open>s\<close> is nil); \<open>s\<close> is a prefix of that array.
\<close>

definition shiftLeftAt :: "nat \<Rightarrow> 'a list \<Rightarrow> 'a list" where
  "shiftLeftAt i arr = take i arr @ drop (Suc i) arr @ drop (length arr - 1) arr"

fun removeLoop :: "string \<Rightarrow> nat \<Rightarrow> nat \<Rightarrow> string list \<Rightarrow> nat option
                     \<Rightarrow> string list \<times> nat option" where
  "removeLoop password 0 i arr s = (arr, s)"
| "removeLoop password (Suc k) i arr s =
     (if arr ! i = password
      then removeLoop password k (Suc i) (shiftLeftAt i arr) (Some (length arr - 1))
      else removeLoop password k (Suc i) arr s)"

definition removePassword :: "string \<Rightarrow> string list \<Rightarrow> string list" where
  "removePassword password ps =
     (case removeLoop password (length ps) 0 ps None of
        (arr, None) \<Rightarrow> []
      | (arr, Some n) \<Rightarrow> take n arr)"

text \<open>
  The outer loop ranges over \<open>userNamespaces\<close> and deletes the entry it is visiting,
  which Go permits; the entries still to be visited are the rest of the list.
\<close>

fun clearLoop :: "string \<Rightarrow> (string \<times> string) list \<Rightarrow> UserManager \<Rightarrow> UserManager option" where
  "clearLoop namespace [] u = Some u"
| "clearLoop namespace ((key, ns) # rest) u =
     (if ns = namespace
      then (case getUserAndPasswordFromKey key of
              None \<Rightarrow> None
            | Some (username, password) \<Rightarrow>
                clearLoop namespace rest
                  (u\<lparr>userNamespaces := AList.delete key (userNamespaces u),
                     users := AList.update username
                                (removePassword password (usersAt u username)) (users u)\<rparr>))
      else clearLoop namespace rest u)"

definition ClearNamespaceUsers :: "string \<Rightarrow> UserManager \<Rightarrow> UserManager option" where
  "ClearNamespaceUsers namespace u = clearLoop namespace (userNamespaces u) u"

fun addNamespaceUsersLoop :: "string \<Rightarrow> (string \<times> string) list \<Rightarrow> UserManager \<Rightarrow> UserManager" where
  "addNamespaceUsersLoop name [] u = u"
| "addNamespaceUsersLoop name ((userName, password) # rest) u =
     addNamespaceUsersLoop name rest
       (u\<lparr>userNamespaces := AList.update (getUserKey userName password) name (userNamespaces u),
          users := AList.update userName (usersAt u userName @ [password]) (users u)\<rparr>)"

definition addNamespaceUsers :: "models_Namespace \<Rightarrow> UserManager \<Rightarrow> UserManager" where
  "addNamespaceUsers namespace u = addNamespaceUsersLoop (Name namespace) (Users namespace) u"

fun CreateUserManager :: "models_Namespace list \<Rightarrow> UserManager \<Rightarrow> UserManager" where
  "CreateUserManager [] u = u"
| "CreateUserManager (ns # rest) u = CreateUserManager rest (addNamespaceUsers ns u)"

definition CloneUserManager :: "UserManager \<Rightarrow> UserManager" where
  "CloneUserManager u = \<lparr>users = users u, userNamespaces = userNamespaces u\<rparr>"

definition RebuildNamespaceUsers :: "models_Namespace \<Rightarrow> UserManager \<Rightarrow> UserManager option" where
  "RebuildNamespaceUsers namespace u =
     map_option (addNamespaceUsers namespace) (ClearNamespaceUsers (Name namespace) u)"

definition CheckUser :: "UserManager \<Rightarrow> string \<Rightarrow> bool" where
  "CheckUser u user = (map_of (users u) user \<noteq> None)"

text \<open>The three password loops return at the first password that verifies.\<close>

fun firstPassword :: "(string \<Rightarrow> bool) \<Rightarrow> string list \<Rightarrow> bool \<times> string" where
  "firstPassword ok [] = (False, [])"
| "firstPassword ok (password # rest) =
     (if ok password then (True, password) else firstPassword ok rest)"

definition GetNamespaceByUser :: "UserManager \<Rightarrow> string \<Rightarrow> string \<Rightarrow> string" where
  "GetNamespaceByUser u userName password =
     (case map_of (userNamespaces u) (getUserKey userName password) of
        Some name \<Rightarrow> name
      | None \<Rightarrow> [])"

section \<open>Errors\<close>

text \<open>
  Every error value the modelled code returns; the message texts are elided.
  \<open>SessionCloseRespError\<close> and \<open>SessionCloseNoRespError\<close> are the two wrapper types
  that \<open>writeResponse\<close> tells apart by a type switch. \<open>GoPanic\<close> stands for a run-time
  panic (nil dereference, index out of range) where the model makes it a result.
\<close>

datatype error =
    ErrAccessDenied
  | ErrConCount
  | ErrInternal
  | ErrNamespaceNotPrepared
  | ErrClientQpsLimitedMsg
  | ErrInternalServer
  | SessionCloseRespError error
  | SessionCloseNoRespError error
  | OtherError string
  | GoPanic

section \<open>Namespaces and the dual-slot manager\<close>

text \<open>
  The fields of \<open>Namespace\<close> that the modelled functions read. The type is
  declared in a file that is not among the sources; its fields are taken as the code
  uses them:
  \<open>namespaceChangeIndex\<close> is compared with a \<open>uint32\<close>, \<open>maxClientConnections\<close>
  with an \<open>int\<close>, \<open>clientQPSLimit\<close> with \<open>0\<close>.
\<close>

record Namespace =
  name :: string
  namespaceChangeIndex :: uint32
  maxClientConnections :: int
  clientQPSLimit :: int
  supportLimitTx :: bool
  supportMultiQuery :: bool

record NamespaceManager =
  namespaces :: "string \<rightharpoonup> Namespace"

text \<open>
  \<open>Manager\<close>: the arrays \<open>namespaces [2]*NamespaceManager\<close> and \<open>users [2]*UserManager\<close>
  are functions of the slot index (fields \<open>namespaces_m\<close> and \<open>users_m\<close>, renamed
  because the record fields of \<open>NamespaceManager\<close> and \<open>UserManager\<close> carry the same
  names). A slot that was never written is nil in Go and is never read before it is the
  target of a prepare or a delete; the model puts some manager there. Of
  \<open>StatisticManager\<close> the manager keeps the two maps the modelled code touches:
  \<open>clientConnecions\<close> (namespace to atomic \<open>int32\<close>) and the key set of
  \<open>SQLResponsePercentile\<close>. \<open>delayedClose\<close> lists the namespaces handed to
  \<open>go ns.Close(true)\<close>, in order.
\<close>

record Manager =
  reloadPrepared :: bool
  switchIndex :: bool
  namespaces_m :: "nat \<Rightarrow> NamespaceManager"
  users_m :: "nat \<Rightarrow> UserManager"
  clientConnecions :: "string \<rightharpoonup> 32 word"
  SQLResponsePercentile :: "string set"
  delayedClose :: "Namespace list"

text \<open>
  Modelled from the spec: \<open>util.BoolIndex\<close>, which is not among the sources.
  The spec has an atomic bool \<open>active \<in> {0,1}\<close> selecting the readable slot; writers
  populate \<open>slots[1-active]\<close>. \<open>Get\<close> returns the current slot, the other slot and the
  flag.
\<close>

definition BoolIndex_Get :: "bool \<Rightarrow> nat \<times> nat \<times> bool" where
  "BoolIndex_Get index = (if index then (1, 0, True) else (0, 1, False))"

definition NamespaceManager_GetNamespace :: "NamespaceManager \<Rightarrow> string \<Rightarrow> Namespace option" where
  "NamespaceManager_GetNamespace n namespace = namespaces n namespace"

definition ShallowCopyNamespaceManager :: "NamespaceManager \<Rightarrow> NamespaceManager" where
  "ShallowCopyNamespaceManager nsMgr = \<lparr>namespaces = namespaces nsMgr\<rparr>"

text \<open>
  \<open>NewNamespace\<close> builds a namespace from its configuration and may fail; it is
  not among the sources and is a parameter.
\<close>

definition RebuildNamespace ::
  "(models_Namespace \<Rightarrow> error + Namespace) \<Rightarrow> models_Namespace \<Rightarrow> NamespaceManager
     \<Rightarrow> error + NamespaceManager" where
  "RebuildNamespace NewNamespace config n =
     (case NewNamespace config of
        Inl err \<Rightarrow> Inl err
      | Inr namespace \<Rightarrow> Inr (n\<lparr>namespaces := (namespaces n)(Name config \<mapsto> namespace)\<rparr>))"

definition GetNamespace :: "Manager \<Rightarrow> string \<Rightarrow> Namespace option" where
  "GetNamespace m nm =
     (case BoolIndex_Get (switchIndex m) of
        (current, _, _) \<Rightarrow> NamespaceManager_GetNamespace (namespaces_m m current) nm)"

text \<open>
  \<open>ReloadNamespacePrepare\<close>. The assignment through
  \<open>newNamespaceManager.GetNamespace(name).namespaceChangeIndex\<close> writes into the object
  that \<open>RebuildNamespace\<close> has just stored under \<open>name\<close>; the addition is \<open>uint32\<close>
  addition. A panic while the users are rebuilt leaves the namespace slot written.
\<close>

definition ReloadNamespacePrepare ::
  "(models_Namespace \<Rightarrow> error + Namespace) \<Rightarrow> models_Namespace \<Rightarrow> Manager
     \<Rightarrow> error option \<times> Manager" where
  "ReloadNamespacePrepare NewNamespace namespaceConfig m =
     (case BoolIndex_Get (switchIndex m) of
        (current, other, _) \<Rightarrow>
          let nm = Name namespaceConfig;
              currentNamespaceManager = namespaces_m m current;
              nsChangeIndexOld =
                (case NamespaceManager_GetNamespace currentNamespaceManager nm of
                   None \<Rightarrow> 0
                 | Some nsOld \<Rightarrow> namespaceChangeIndex nsOld)
          in (case RebuildNamespace NewNamespace namespaceConfig
                     (ShallowCopyNamespaceManager currentNamespaceManager) of
                Inl err \<Rightarrow> (Some err, m)
              | Inr rebuilt \<Rightarrow>
                  (case NamespaceManager_GetNamespace rebuilt nm of
                     None \<Rightarrow> (Some GoPanic, m)
                   | Some ns \<Rightarrow>
                       let newNamespaceManager =
                             rebuilt\<lparr>namespaces := (namespaces rebuilt)
                               (nm \<mapsto> ns\<lparr>namespaceChangeIndex := nsChangeIndexOld + 1\<rparr>)\<rparr>;
                           m1 = m\<lparr>namespaces_m := (namespaces_m m)(other := newNamespaceManager)\<rparr>
                       in (case RebuildNamespaceUsers namespaceConfig
                                  (CloneUserManager (users_m m1 current)) of
                             None \<Rightarrow> (Some GoPanic, m1)
                           | Some newUserManager \<Rightarrow>
                               (None,
                                m1\<lparr>users_m := (users_m m1)(other := newUserManager),
                                   SQLResponsePercentile := insert nm (SQLResponsePercentile m1),
                                   reloadPrepared := True\<rparr>)))))"

text \<open>
  \<open>ReloadNamespaceCommit\<close>: \<open>CompareAndSwap(true, false)\<close> on \<open>reloadPrepared\<close>, the
  delayed close of the namespace being replaced, and the flip of the index.
\<close>

definition ReloadNamespaceCommit :: "string \<Rightarrow> Manager \<Rightarrow> error option \<times> Manager" where
  "ReloadNamespaceCommit nm m =
     (if \<not> reloadPrepared m then (Some ErrNamespaceNotPrepared, m)
      else
        let m1 = m\<lparr>reloadPrepared := False\<rparr>
        in (case BoolIndex_Get (switchIndex m1) of
              (current, _, index) \<Rightarrow>
                let m2 = (case NamespaceManager_GetNamespace (namespaces_m m1 current) nm of
                            None \<Rightarrow> m1
                          | Some currentNamespace \<Rightarrow>
                              m1\<lparr>delayedClose := delayedClose m1 @ [currentNamespace]\<rparr>)
                in (None, m2\<lparr>switchIndex := \<not> index\<rparr>)))"

text \<open>The change index a prepare starts from: zero when the namespace does not exist.\<close>

definition changeIndexOf :: "Manager \<Rightarrow> string \<Rightarrow> uint32" where
  "changeIndexOf m nm =
     (case GetNamespace m nm of None \<Rightarrow> 0 | Some ns \<Rightarrow> namespaceChangeIndex ns)"

text \<open>
  A user manager is consistent when its keys are distinct and every key is the key of a
  user name and a password that contain no colon, the password being among the passwords
  of the user.
\<close>

definition colonFree :: "string \<Rightarrow> bool" where
  "colonFree str \<longleftrightarrow> CHR '':'' \<notin> set str"

definition consistentUsers :: "UserManager \<Rightarrow> bool" where
  "consistentUsers u \<longleftrightarrow>
     distinct (map fst (userNamespaces u)) \<and>
     (\<forall>(key, ns) \<in> set (userNamespaces u).
        \<exists>usr pw. key = getUserKey usr pw \<and> colonFree usr \<and> colonFree pw \<and>
                 pw \<in> set (usersAt u usr))"

text \<open>
  A user manager as \<open>CreateUserManager\<close> builds it from two namespace configurations:
  user \<open>u\<close> has the password \<open>a:b\<close> in namespace \<open>ns1\<close> and the password \<open>c\<close> in
  namespace \<open>ns2\<close>.
\<close>

definition colonConfigs :: "models_Namespace list" where
  "colonConfigs =
     [\<lparr>Name = ''ns1'', Users = [(''u'', ''a:b'')]\<rparr>,
      \<lparr>Name = ''ns2'', Users = [(''u'', ''c'')]\<rparr>]"

definition colonManager :: UserManager where
  "colonManager =
     \<lparr>users = [(''u'', [''a:b'', ''c''])],
      userNamespaces = [(''u:a:b'', ''ns1''), (''u:c'', ''ns2'')]\<rparr>"

text \<open>A run of reloads: each configuration is prepared and then committed.\<close>

fun reloadAll ::
  "(models_Namespace \<Rightarrow> error + Namespace) \<Rightarrow> models_Namespace list \<Rightarrow> Manager
     \<Rightarrow> Manager option" where
  "reloadAll NewNamespace [] m = Some m"
| "reloadAll NewNamespace (cfg # cfgs) m =
     (case ReloadNamespacePrepare NewNamespace cfg m of
        (None, m1) \<Rightarrow>
          (case ReloadNamespaceCommit (Name cfg) m1 of
             (None, m2) \<Rightarrow> reloadAll NewNamespace cfgs m2
           | (Some err, _) \<Rightarrow> None)
      | (Some err, _) \<Rightarrow> None)"

section \<open>Sessions, executors and responses\<close>

text \<open>
  A pooled backend connection is known by its identity. What the code does to such
  connections (\<open>Close\<close>, \<open>Recycle\<close>, \<open>SetAutoCommit\<close>) happens in the backend
  package; the model records the calls, in order, in the field \<open>backend\<close> of the
  executor.
\<close>

type_synonym PooledConnect = nat

datatype conn_event =
    ConnClose PooledConnect
  | ConnRecycle PooledConnect
  | ConnSetAutoCommit PooledConnect nat

datatype mysql_Result = Result string

type_synonym Stmt = nat
type_synonym Field = string
type_synonym RequestContext = "string list"

text \<open>
  Modelled from the spec: the response envelope (the file declaring \<open>Response\<close> and
  its constructors is not among the sources). The spec has a tagged variant over
  \<open>EOF(status)\<close>, \<open>OK(status)\<close>, \<open>Result(status, Result, isBinary)\<close>,
  \<open>Prepare(status, Stmt)\<close>, \<open>FieldList(status, [Field])\<close>, \<open>Error\<close> and \<open>Noop\<close>;
  a payload may be nil.
\<close>

datatype Response =
    RespEOF uint16
  | RespOK uint16
  | RespResult uint16 "mysql_Result option" bool
  | RespPrepare uint16 "Stmt option"
  | RespFieldList uint16 "Field list option"
  | RespError uint16 "error option"
  | RespNoop

definition CreateErrorResponse :: "uint16 \<Rightarrow> error \<Rightarrow> Response" where
  "CreateErrorResponse st err = RespError st (Some err)"

definition CreateResultResponse :: "uint16 \<Rightarrow> mysql_Result option \<Rightarrow> bool \<Rightarrow> Response" where
  "CreateResultResponse st r isBinary = RespResult st r isBinary"

text \<open>The packets the session hands to the client connection.\<close>

datatype packet =
    PktInitialHandshakeV10
  | PktEOF uint16
  | PktOK uint16
  | PktResult uint16 mysql_Result
  | PktResultStream uint16 mysql_Result PooledConnect bool
  | PktPrepare uint16 Stmt
  | PktFieldList uint16 "Field list"
  | PktError error

fun pkt_status :: "packet \<Rightarrow> uint16 option" where
  "pkt_status (PktEOF st) = Some st"
| "pkt_status (PktOK st) = Some st"
| "pkt_status (PktResult st _) = Some st"
| "pkt_status (PktResultStream st _ _ _) = Some st"
| "pkt_status (PktPrepare st _) = Some st"
| "pkt_status (PktFieldList st _) = Some st"
| "pkt_status _ = None"

text \<open>
  \<open>ClientConn\<close>: the negotiated capability, the guard bit of the read buffer, the
  packets written so far (\<open>out\<close>), the number of times the read buffer was recycled and
  the number of times the socket was closed.
\<close>

record ClientConn =
  capability :: uint32
  namespace_c :: string
  hasRecycledReadPacket :: bool
  remoteAddr :: string
  out :: "packet list"
  recycledReads :: nat
  closeCount :: nat

record SessionExecutor =
  namespace_se :: string
  user :: string
  db :: string
  charset :: string
  collation :: nat
  status :: uint16
  txConns :: "(string \<times> PooledConnect) list"
  ksConns :: "(string \<times> PooledConnect) list"
  nsChangeIndexOld :: uint32
  backend :: "conn_event list"

record Session =
  c :: ClientConn
  namespace :: string
  executor :: SessionExecutor
  closed :: bool
  continueConn :: "PooledConnect option"

record HandshakeResponseInfo =
  User :: string
  AuthResponse :: bytes
  AuthPlugin :: string
  Salt :: bytes
  CollationID :: nat
  Database :: string

text \<open>
  The collaborators. Everything the modelled functions call that is declared in a file
  not among the sources is a parameter, collected in one record:
  \<^item> methods of \<open>SessionExecutor\<close> (\<open>isInTransaction\<close>, \<open>IsKeepSession\<close>, \<open>rollback\<close>,
    \<open>handleKsQuit\<close>, \<open>recycleBackendConn\<close>, \<open>SetContextNamespace\<close>, \<open>ExecuteCommand\<close>);
  \<^item> \<open>doQuery\<close>, whose body is glue over the external parser and planner, the splitter
    \<open>parser.SplitStatementToPieces\<close>, and the request context they share;
  \<^item> package \<open>mysql\<close>: the three password schemes, the collation tables, the error
    value \<open>ErrTxNsChanged\<close>, \<open>BuildBinaryResultSet\<close>;
  \<^item> the namespace's IP predicate, the backend's answer to \<open>SetAutoCommit\<close>, and the
    socket: \<open>sockErr n\<close> is the outcome of the \<open>n\<close>-th write on the client connection.
  A collaborator is taken to return; a panic raised inside one is outside the model.
\<close>

record env =
  isInTransaction :: "SessionExecutor \<Rightarrow> bool"
  IsKeepSession :: "SessionExecutor \<Rightarrow> bool"
  rollback :: "SessionExecutor \<Rightarrow> error option \<times> SessionExecutor"
  handleKsQuit :: "SessionExecutor \<Rightarrow> SessionExecutor"
  recycleBackendConn :: "SessionExecutor \<Rightarrow> PooledConnect option \<Rightarrow> SessionExecutor"
  SetContextNamespace :: "SessionExecutor \<Rightarrow> SessionExecutor"
  ExecuteCommand :: "Manager \<Rightarrow> 8 word \<Rightarrow> bytes \<Rightarrow> Session \<Rightarrow> Response \<times> Session"
  doQuery :: "RequestContext \<Rightarrow> string \<Rightarrow> Session
                \<Rightarrow> (mysql_Result option \<times> error option) \<times> RequestContext \<times> Session"
  SplitStatementToPieces :: "string \<Rightarrow> error + string list"
  NewRequestContext :: RequestContext
  setContextSQLFingerprint :: "RequestContext \<Rightarrow> string \<Rightarrow> RequestContext"
  CalcPassword :: "bytes \<Rightarrow> bytes \<Rightarrow> bytes"
  mysql_CheckHashPassword :: "bytes \<Rightarrow> bytes \<Rightarrow> bytes \<Rightarrow> bool"
  CalcCachingSha2Password :: "bytes \<Rightarrow> string \<Rightarrow> bytes"
  Collations :: "nat \<rightharpoonup> string"
  CollationNameToCharset :: "string \<rightharpoonup> string"
  ErrTxNsChanged :: error
  BuildBinaryResultSet :: "mysql_Result \<Rightarrow> error option"
  IsClientIPAllowed :: "Namespace \<Rightarrow> string \<Rightarrow> bool"
  pc_SetAutoCommit :: "PooledConnect \<Rightarrow> nat \<Rightarrow> error option"
  sockErr :: "nat \<Rightarrow> string option"

subsection \<open>Writing to the client\<close>

text \<open>
  Every writer of \<open>ClientConn\<close> hands one packet to the socket and returns the
  socket's error, if any.
\<close>

definition clientWrite :: "env \<Rightarrow> packet \<Rightarrow> Session \<Rightarrow> error option \<times> Session" where
  "clientWrite E pkt cc =
     (map_option OtherError (sockErr E (length (out (c cc)))),
      cc\<lparr>c := (c cc)\<lparr>out := out (c cc) @ [pkt]\<rparr>\<rparr>)"

text \<open>
  \<open>writeResponse\<close>. The deferred function runs on every exit: it hands
  \<open>continueConn\<close> to \<open>recycleBackendConn\<close> and clears it.
\<close>

definition writeResponseBody :: "env \<Rightarrow> Response \<Rightarrow> Session \<Rightarrow> error option \<times> Session" where
  "writeResponseBody E r cc =
     (case r of
        RespEOF st \<Rightarrow> clientWrite E (PktEOF st) cc
      | RespResult st None isBinary \<Rightarrow> clientWrite E (PktOK st) cc
      | RespResult st (Some rs) isBinary \<Rightarrow>
          (case continueConn cc of
             Some pc \<Rightarrow> clientWrite E (PktResultStream st rs pc isBinary) cc
           | None \<Rightarrow>
               (if isBinary
                then (case BuildBinaryResultSet E rs of
                        Some err \<Rightarrow> (Some err, cc)
                      | None \<Rightarrow> clientWrite E (PktResult st rs) cc)
                else clientWrite E (PktResult st rs) cc))
      | RespPrepare st None \<Rightarrow> clientWrite E (PktOK st) cc
      | RespPrepare st (Some stmt) \<Rightarrow> clientWrite E (PktPrepare st stmt) cc
      | RespFieldList st None \<Rightarrow> clientWrite E (PktOK st) cc
      | RespFieldList st (Some rs) \<Rightarrow> clientWrite E (PktFieldList st rs) cc
      | RespError st None \<Rightarrow> clientWrite E (PktOK st) cc
      | RespError st (Some err) \<Rightarrow>
          (case err of
             SessionCloseRespError _ \<Rightarrow> (Some err, snd (clientWrite E (PktError err) cc))
           | SessionCloseNoRespError _ \<Rightarrow> (Some err, cc)
           | _ \<Rightarrow> clientWrite E (PktError err) cc)
      | RespOK st \<Rightarrow> clientWrite E (PktOK st) cc
      | RespNoop \<Rightarrow> (None, cc))"

definition writeResponse :: "env \<Rightarrow> Response \<Rightarrow> Session \<Rightarrow> error option \<times> Session" where
  "writeResponse E r cc =
     (case writeResponseBody E r cc of
        (err, cc1) \<Rightarrow>
          (err, cc1\<lparr>executor := recycleBackendConn E (executor cc1) (continueConn cc1),
                    continueConn := None\<rparr>))"

subsection \<open>Closing a session\<close>

definition IsClosed :: "Session \<Rightarrow> bool" where
  "IsClosed cc = closed cc"

text \<open>
  \<open>Session.Close\<close>: the flag is stored first; the error of \<open>rollback\<close> is only logged;
  \<open>cc.c.Close()\<close> closes the socket.
\<close>

definition Close :: "env \<Rightarrow> Session \<Rightarrow> Session" where
  "Close E cc =
     (if IsClosed cc then cc
      else
        let cc1 = cc\<lparr>closed := True\<rparr>;
            cc2 = cc1\<lparr>executor := snd (rollback E (executor cc1))\<rparr>;
            cc3 = cc2\<lparr>executor := handleKsQuit E (executor cc2)\<rparr>
        in cc3\<lparr>c := (c cc3)\<lparr>closeCount := closeCount (c cc3) + 1\<rparr>\<rparr>)"

subsection \<open>Namespace reloads seen from a session\<close>





text \<open>
  One pass through the loop of \<open>Run\<close>, entered with the session open. \<open>m0\<close> is the
  manager as the snapshot at the top of the loop sees it, \<open>m\<close> the manager as the rest
  of the pass sees it (a reload may land while the session waits for the packet);
  \<open>rd\<close> is the outcome of \<open>ReadEphemeralPacket\<close>. The result tells whether \<open>Run\<close>
  returned; when it does, by \<open>return\<close> or by a panic, the deferred function closes the
  session. The timeout wheel and the flow counters are left out.
\<close>

definition RunDeferred :: "env \<Rightarrow> Session \<Rightarrow> Session \<times> bool" where
  "RunDeferred E cc = (Close E cc, True)"


text \<open>Concrete inputs for the closed theorems below.\<close>

definition exampleNamespace :: "string \<Rightarrow> uint32 \<Rightarrow> Namespace" where
  "exampleNamespace nm idx =
     \<lparr>name = nm, namespaceChangeIndex = idx, maxClientConnections = 2,
      clientQPSLimit = 1, supportLimitTx = True, supportMultiQuery = True\<rparr>"

definition exampleNewNamespace :: "models_Namespace \<Rightarrow> error + Namespace" where
  "exampleNewNamespace cfg = Inr (exampleNamespace (Name cfg) 0)"

definition exampleConfig :: models_Namespace where
  "exampleConfig = \<lparr>Name = ''ns1'', Users = [(''u'', ''p'')]\<rparr>"

definition exampleUsers :: UserManager where
  "exampleUsers = \<lparr>users = [(''u'', [''p''])], userNamespaces = [(''u:p'', ''ns1'')]\<rparr>"

definition exampleManager :: "uint32 \<Rightarrow> bool \<Rightarrow> Manager" where
  "exampleManager idx prepared =
     \<lparr>reloadPrepared = prepared, switchIndex = False,
      namespaces_m = (\<lambda>_. \<lparr>namespaces = [''ns1'' \<mapsto> exampleNamespace ''ns1'' idx]\<rparr>),
      users_m = (\<lambda>_. exampleUsers),
      clientConnecions = Map.empty, SQLResponsePercentile = {}, delayedClose = []\<rparr>"

section \<open>Handshake\<close>

subsection \<open>Password checks of the user manager\<close>

text \<open>
  Each check walks the passwords of the user in order and returns at the first one
  that verifies; \<open>strings.HasPrefix(password, "*")\<close> is \<open>take 1 password = ''*''\<close> and
  \<open>[]byte(password)[1:]\<close> is \<open>drop 1 password\<close>.
\<close>

definition CheckPassword :: "env \<Rightarrow> UserManager \<Rightarrow> string \<Rightarrow> bytes \<Rightarrow> bytes \<Rightarrow> bool \<times> string" where
  "CheckPassword E u usr salt auth =
     firstPassword (\<lambda>password. auth = CalcPassword E salt password) (usersAt u usr)"

definition CheckHashPassword :: "env \<Rightarrow> UserManager \<Rightarrow> string \<Rightarrow> bytes \<Rightarrow> bytes \<Rightarrow> bool \<times> string" where
  "CheckHashPassword E u usr salt auth =
     firstPassword
       (\<lambda>password. (take 1 password = ''*'' \<and> length password = 41) \<and>
                    mysql_CheckHashPassword E auth salt (drop 1 password))
       (usersAt u usr)"

definition CheckSha2Password :: "env \<Rightarrow> UserManager \<Rightarrow> string \<Rightarrow> bytes \<Rightarrow> bytes \<Rightarrow> bool \<times> string" where
  "CheckSha2Password E u usr salt auth =
     firstPassword (\<lambda>password. auth = CalcCachingSha2Password E salt password) (usersAt u usr)"

text \<open>The methods of \<open>Manager\<close> read the user manager of the current slot.\<close>

definition currentUsers :: "Manager \<Rightarrow> UserManager" where
  "currentUsers m = (case BoolIndex_Get (switchIndex m) of (current, _, _) \<Rightarrow> users_m m current)"

definition Manager_CheckUser :: "Manager \<Rightarrow> string \<Rightarrow> bool" where
  "Manager_CheckUser m usr = CheckUser (currentUsers m) usr"

definition Manager_CheckPassword :: "env \<Rightarrow> Manager \<Rightarrow> string \<Rightarrow> bytes \<Rightarrow> bytes \<Rightarrow> bool \<times> string" where
  "Manager_CheckPassword E m usr salt auth = CheckPassword E (currentUsers m) usr salt auth"

definition Manager_CheckHashPassword :: "env \<Rightarrow> Manager \<Rightarrow> string \<Rightarrow> bytes \<Rightarrow> bytes \<Rightarrow> bool \<times> string" where
  "Manager_CheckHashPassword E m usr salt auth = CheckHashPassword E (currentUsers m) usr salt auth"

definition Manager_CheckSha2Password :: "env \<Rightarrow> Manager \<Rightarrow> string \<Rightarrow> bytes \<Rightarrow> bytes \<Rightarrow> bool \<times> string" where
  "Manager_CheckSha2Password E m usr salt auth = CheckSha2Password E (currentUsers m) usr salt auth"

definition Manager_GetNamespaceByUser :: "Manager \<Rightarrow> string \<Rightarrow> string \<Rightarrow> string" where
  "Manager_GetNamespaceByUser m userName password =
     GetNamespaceByUser (currentUsers m) userName password"

subsection \<open>The handshake of a session\<close>

text \<open>
  \<open>handleHandshakeResponse\<close>. The setters of the executor (\<open>SetCollationID\<close>,
  \<open>SetCharset\<close>, \<open>SetDatabase\<close>) are field updates.
\<close>

definition handleHandshakeResponse ::
  "env \<Rightarrow> Manager \<Rightarrow> HandshakeResponseInfo \<Rightarrow> Session \<Rightarrow> error option \<times> Session" where
  "handleHandshakeResponse E m info cc =
     (let usr = User info
      in if \<not> Manager_CheckUser m usr then (Some ErrAccessDenied, cc)
         else
           let cc1 = cc\<lparr>executor := (executor cc)\<lparr>user := usr\<rparr>\<rparr>;
               (succ, password) =
                 (if length (AuthPlugin info) = 0
                  then (if length (AuthResponse info) = 32
                        then Manager_CheckSha2Password E m usr (Salt info) (AuthResponse info)
                        else (case Manager_CheckHashPassword E m usr (Salt info) (AuthResponse info) of
                                (True, pw) \<Rightarrow> (True, pw)
                              | (False, _) \<Rightarrow>
                                  Manager_CheckPassword E m usr (Salt info) (AuthResponse info)))
                  else if AuthPlugin info = CachingSHA2Password
                  then Manager_CheckSha2Password E m usr (Salt info) (AuthResponse info)
                  else Manager_CheckPassword E m usr (Salt info) (AuthResponse info))
           in if \<not> succ then (Some ErrAccessDenied, cc1)
              else
                (case Collations E (CollationID info) of
                   None \<Rightarrow> (Some ErrInternal, cc1)
                 | Some collationName \<Rightarrow>
                     (case CollationNameToCharset E collationName of
                        None \<Rightarrow> (Some ErrInternal, cc1)
                      | Some cs \<Rightarrow>
                          let nsName = Manager_GetNamespaceByUser m usr password
                          in (None,
                              cc1\<lparr>executor := SetContextNamespace E
                                     ((executor cc1)\<lparr>collation := CollationID info, charset := cs,
                                                     db := Database info, namespace_se := nsName\<rparr>),
                                  namespace := nsName,
                                  c := (c cc1)\<lparr>namespace_c := nsName\<rparr>\<rparr>))))"

text \<open>
  \<open>IsAllowConnect\<close>: the namespace's predicate on the client address; the parsing of
  the address is part of the parameter. A session whose namespace the manager does not
  have panics here.
\<close>

definition IsAllowConnect :: "env \<Rightarrow> Manager \<Rightarrow> Session \<Rightarrow> bool option" where
  "IsAllowConnect E m cc =
     (case GetNamespace m (namespace cc) of
        None \<Rightarrow> None
      | Some ns \<Rightarrow> Some (IsClientIPAllowed E ns (remoteAddr (c cc))))"

text \<open>
  \<open>clientConnectionReachLimit\<close>: no entry in \<open>clientConnecions\<close> means the first
  connection; otherwise the \<open>int32\<close> counter, read as a signed integer, is compared
  with \<open>maxClientConnections\<close>.
\<close>

definition clientConnectionReachLimit :: "Manager \<Rightarrow> Session \<Rightarrow> (bool \<times> int) option" where
  "clientConnectionReachLimit m cc =
     (case clientConnecions m (namespace cc) of
        None \<Rightarrow> Some (False, 0)
      | Some current \<Rightarrow>
          let v = sint current
          in (case GetNamespace m (namespace cc) of
                None \<Rightarrow> None
              | Some ns \<Rightarrow>
                  (if maxClientConnections ns \<le> v then Some (True, v) else Some (False, v))))"

text \<open>
  \<open>Handshake\<close>; \<open>rd\<close> is the outcome of \<open>readHandshakeResponse\<close>. Both branches
  of the liveness filter after a failed first write return the error.
\<close>

definition Handshake ::
  "env \<Rightarrow> Manager \<Rightarrow> error + HandshakeResponseInfo \<Rightarrow> Session \<Rightarrow> error option \<times> Session" where
  "Handshake E m rd cc =
     (case clientWrite E PktInitialHandshakeV10 cc of
        (Some err, cc1) \<Rightarrow> (Some err, cc1)
      | (None, cc1) \<Rightarrow>
          (case rd of
             Inl err \<Rightarrow> (Some err, cc1)
           | Inr info \<Rightarrow>
               (case handleHandshakeResponse E m info cc1 of
                  (Some err, cc2) \<Rightarrow> (Some err, cc2)
                | (None, cc2) \<Rightarrow>
                    (case IsAllowConnect E m cc2 of
                       None \<Rightarrow> (Some GoPanic, cc2)
                     | Some False \<Rightarrow> (Some ErrAccessDenied, cc2)
                     | Some True \<Rightarrow>
                         (case clientConnectionReachLimit m cc2 of
                            None \<Rightarrow> (Some GoPanic, cc2)
                          | Some (True, connectionNum) \<Rightarrow> (Some ErrConCount, cc2)
                          | Some (False, connectionNum) \<Rightarrow>
                              clientWrite E (PktOK (status (executor cc2))) cc2)))))"

text \<open>
  The authentication contract in the words of the spec: the scheme is chosen from the
  plugin field and the length of the auth response; the native-hash scheme falls back to
  the classic one.
\<close>

datatype auth_scheme = Sha256Caching | NativeHashThenClassic | Classic

definition spec_scheme :: "HandshakeResponseInfo \<Rightarrow> auth_scheme" where
  "spec_scheme info =
     (if AuthPlugin info = [] \<and> length (AuthResponse info) = 32 then Sha256Caching
      else if AuthPlugin info = [] \<and> length (AuthResponse info) \<noteq> 32 then NativeHashThenClassic
      else if AuthPlugin info = ''caching_sha2_password'' then Sha256Caching
      else Classic)"

definition spec_verify :: "env \<Rightarrow> Manager \<Rightarrow> HandshakeResponseInfo \<Rightarrow> bool \<times> string" where
  "spec_verify E m info =
     (case spec_scheme info of
        Sha256Caching \<Rightarrow> Manager_CheckSha2Password E m (User info) (Salt info) (AuthResponse info)
      | NativeHashThenClassic \<Rightarrow>
          (if fst (Manager_CheckHashPassword E m (User info) (Salt info) (AuthResponse info))
           then Manager_CheckHashPassword E m (User info) (Salt info) (AuthResponse info)
           else Manager_CheckPassword E m (User info) (Salt info) (AuthResponse info))
      | Classic \<Rightarrow> Manager_CheckPassword E m (User info) (Salt info) (AuthResponse info))"

section \<open>The executor\<close>

subsection \<open>Autocommit\<close>

text \<open>
  \<open>handleSetAutoCommit\<close>. The loop over \<open>txConns\<close> sets autocommit on every
  connection, remembers the last failure and recycles the connection whether or not
  the call failed.
\<close>

fun setAutoCommitLoop ::
  "env \<Rightarrow> (string \<times> PooledConnect) list \<Rightarrow> error option \<Rightarrow> conn_event list
     \<Rightarrow> error option \<times> conn_event list" where
  "setAutoCommitLoop E [] err evs = (err, evs)"
| "setAutoCommitLoop E ((sliceName, pc) # rest) err evs =
     setAutoCommitLoop E rest
       (case pc_SetAutoCommit E pc 1 of
          Some e \<Rightarrow> Some (OtherError ''set autocommit error'')
        | None \<Rightarrow> err)
       (evs @ [ConnSetAutoCommit pc 1, ConnRecycle pc])"

definition handleSetAutoCommit ::
  "env \<Rightarrow> bool \<Rightarrow> SessionExecutor \<Rightarrow> error option \<times> SessionExecutor" where
  "handleSetAutoCommit E autocommit se =
     (if autocommit
      then
        let st1 = status se OR ServerStatusAutocommit;
            st2 = (if st1 AND ServerStatusInTrans > 0
                   then st1 AND NOT ServerStatusInTrans
                   else st1)
        in (case setAutoCommitLoop E (txConns se) None (backend se) of
              (err, evs) \<Rightarrow> (err, se\<lparr>status := st2, backend := evs, txConns := []\<rparr>))
      else (None, se\<lparr>status := status se AND NOT ServerStatusAutocommit\<rparr>))"

text \<open>The events the loop adds for a map of transaction connections.\<close>

definition autoCommittedAndRecycled :: "(string \<times> PooledConnect) list \<Rightarrow> conn_event list" where
  "autoCommittedAndRecycled conns =
     concat (map (\<lambda>(sliceName, pc). [ConnSetAutoCommit pc 1, ConnRecycle pc]) conns)"

subsection \<open>Queries\<close>

text \<open>
  Modelled from the spec: the limiter of a namespace, a token bucket with a non-blocking
  \<open>try_acquire\<close>, supplied from outside. Its state is the number of tokens in the
  bucket; \<open>Allow\<close> takes one when there is one. Refilling is a matter of time and not
  part of the model.
\<close>

definition Allow :: "nat \<Rightarrow> bool \<times> nat" where
  "Allow tokens = (if tokens = 0 then (False, 0) else (True, tokens - 1))"

text \<open>\<open>strings.TrimRight(sql, ";")\<close>.\<close>

definition TrimRight_semicolon :: "string \<Rightarrow> string" where
  "TrimRight_semicolon sql = rev (dropWhile (\<lambda>ch. ch = CHR '';'') (rev sql))"

text \<open>
  The loop of \<open>doMultiStmts\<close> over the pieces: \<open>index\<close> counts from zero and
  \<open>index < stmtsNum - 1\<close> is a comparison of Go \<open>int\<close>s. A piece that fails ends
  the loop with its error; a write that fails closes the session and ends the loop with
  the result already computed and the error of the write.
\<close>

fun multiLoop ::
  "env \<Rightarrow> string \<Rightarrow> nat \<Rightarrow> nat \<Rightarrow> string list \<Rightarrow> RequestContext \<Rightarrow> mysql_Result option
     \<Rightarrow> Session \<Rightarrow> (mysql_Result option \<times> error option) \<times> Session" where
  "multiLoop E sql stmtsNum index [] reqCtx r cc = ((r, None), cc)"
| "multiLoop E sql stmtsNum index (piece # rest) reqCtx r cc =
     (case doQuery E (setContextSQLFingerprint E reqCtx sql) piece cc of
        ((r1, Some errRet), reqCtx1, cc1) \<Rightarrow> ((None, Some errRet), cc1)
      | ((r1, None), reqCtx1, cc1) \<Rightarrow>
          (if int index < int stmtsNum - 1
           then (case writeResponse E
                        (CreateResultResponse (status (executor cc1) OR ServerMoreResultsExists)
                           r1 False) cc1 of
                   (Some err, cc2) \<Rightarrow> ((r1, Some err), Close E cc2)
                 | (None, cc2) \<Rightarrow> multiLoop E sql stmtsNum (index + 1) rest reqCtx1 r1 cc2)
           else multiLoop E sql stmtsNum (index + 1) rest reqCtx1 r1 cc1))"

text \<open>
  The first statement of \<open>doMultiStmts\<close>: when
  \<open>hasRecycledReadPacket.CompareAndSwap(false, true)\<close> succeeds the read buffer is
  recycled early.
\<close>

definition recycleReadEarly :: "Session \<Rightarrow> Session" where
  "recycleReadEarly cc =
     (if \<not> hasRecycledReadPacket (c cc)
      then cc\<lparr>c := (c cc)\<lparr>hasRecycledReadPacket := True,
                            recycledReads := recycledReads (c cc) + 1\<rparr>\<rparr>
      else cc)"

definition doMultiStmts ::
  "env \<Rightarrow> RequestContext \<Rightarrow> string \<Rightarrow> Session
     \<Rightarrow> (mysql_Result option \<times> error option) \<times> Session" where
  "doMultiStmts E reqCtx sql cc =
     (let cc0 = recycleReadEarly cc
      in (case SplitStatementToPieces E sql of
            Inl err \<Rightarrow> ((None, Some err), cc0)
          | Inr piecesSql \<Rightarrow>
              let stmtsNum = length piecesSql
              in if stmtsNum = 1
                 then (case doQuery E reqCtx sql cc0 of (res, reqCtx1, cc1) \<Rightarrow> (res, cc1))
                 else multiLoop E sql stmtsNum 0 piecesSql reqCtx None cc0))"

text \<open>
  \<open>handleQuery\<close>. \<open>tokens\<close> is the state of the limiter of the executor's namespace
  and is returned updated. The conditions short-circuit as in Go, so \<open>Allow\<close> is called
  at most once. A namespace that the manager does not have is a nil dereference, which
  the deferred \<open>recover\<close> turns into an internal error. The last branch of the source
  is \<open>handleQuery_execute\<close>. Recording the metrics is left out.
\<close>

definition handleQuery_execute ::
  "env \<Rightarrow> Namespace \<Rightarrow> RequestContext \<Rightarrow> string \<Rightarrow> Session
     \<Rightarrow> (mysql_Result option \<times> error option) \<times> Session" where
  "handleQuery_execute E ns reqCtx sql cc =
     (if supportMultiQuery ns \<and> capability (c cc) AND ClientMultiStatements \<noteq> 0
      then doMultiStmts E reqCtx sql cc
      else (case doQuery E reqCtx sql cc of (res, reqCtx1, cc1) \<Rightarrow> (res, cc1)))"

definition handleQuery ::
  "env \<Rightarrow> Manager \<Rightarrow> nat \<Rightarrow> string \<Rightarrow> Session
     \<Rightarrow> (mysql_Result option \<times> error option) \<times> nat \<times> Session" where
  "handleQuery E m tokens sql0 cc =
     (let sql = TrimRight_semicolon sql0;
          reqCtx = NewRequestContext E
      in (case GetNamespace m (namespace_se (executor cc)) of
            None \<Rightarrow> ((None, Some ErrInternalServer), tokens, cc)
          | Some ns \<Rightarrow>
              (if clientQPSLimit ns > 0 \<and> supportLimitTx ns
               then (case Allow tokens of
                       (False, tokens1) \<Rightarrow>
                         (if isInTransaction E (executor cc)
                          then ((None, Some (SessionCloseRespError ErrClientQpsLimitedMsg)),
                                tokens1, cc)
                          else ((None, Some ErrClientQpsLimitedMsg), tokens1, cc))
                     | (True, tokens1) \<Rightarrow>
                         (case handleQuery_execute E ns reqCtx sql cc of
                            (res, cc1) \<Rightarrow> (res, tokens1, cc1)))
               else if clientQPSLimit ns > 0 \<and> \<not> supportLimitTx ns \<and>
                       \<not> isInTransaction E (executor cc)
               then (case Allow tokens of
                       (False, tokens1) \<Rightarrow> ((None, Some ErrClientQpsLimitedMsg), tokens1, cc)
                     | (True, tokens1) \<Rightarrow>
                         (case handleQuery_execute E ns reqCtx sql cc of
                            (res, cc1) \<Rightarrow> (res, tokens1, cc1)))
               else (case handleQuery_execute E ns reqCtx sql cc of
                       (res, cc1) \<Rightarrow> (res, tokens, cc1)))))"

text \<open>
  The multi-statement contract in the words of the spec: execute each piece, write
  every intermediate result with \<open>MORE_RESULTS_EXISTS\<close> set, return the final piece to
  the normal write path. \<open>spec_multi\<close> is \<open>None\<close> when a piece fails to execute or a
  write fails; otherwise it gives the statuses and results written, in order, the result
  of the final piece and the session after it.
\<close>

fun spec_multi ::
  "env \<Rightarrow> string \<Rightarrow> string list \<Rightarrow> RequestContext \<Rightarrow> Session
     \<Rightarrow> ((uint16 \<times> mysql_Result option) list \<times> mysql_Result option \<times> Session) option" where
  "spec_multi E sql [] reqCtx cc = None"
| "spec_multi E sql [piece] reqCtx cc =
     (case doQuery E (setContextSQLFingerprint E reqCtx sql) piece cc of
        ((r, None), reqCtx1, cc1) \<Rightarrow> Some ([], r, cc1)
      | ((r, Some err), reqCtx1, cc1) \<Rightarrow> None)"
| "spec_multi E sql (piece # rest) reqCtx cc =
     (case doQuery E (setContextSQLFingerprint E reqCtx sql) piece cc of
        ((r, None), reqCtx1, cc1) \<Rightarrow>
          (case writeResponse E
                  (RespResult (status (executor cc1) OR ServerMoreResultsExists) r False) cc1 of
             (None, cc2) \<Rightarrow>
               (case spec_multi E sql rest reqCtx1 cc2 of
                  None \<Rightarrow> None
                | Some (ws, rl, cc3) \<Rightarrow>
                    Some ((status (executor cc1) OR ServerMoreResultsExists, r) # ws, rl, cc3))
           | (Some err, cc2) \<Rightarrow> None)
      | ((r, Some err), reqCtx1, cc1) \<Rightarrow> None)"

fun pkt_result :: "packet \<Rightarrow> mysql_Result option" where
  "pkt_result (PktResult st rs) = Some rs"
| "pkt_result (PktResultStream st rs pc isBinary) = Some rs"
| "pkt_result _ = None"

text \<open>Executing a piece writes nothing to the client by itself.\<close>

definition doQuery_silent :: "env \<Rightarrow> bool" where
  "doQuery_silent E \<longleftrightarrow> (\<forall>reqCtx q cc. out (c (snd (snd (doQuery E reqCtx q cc)))) = out (c cc))"




definition exampleExecutor :: "uint16 \<Rightarrow> SessionExecutor" where
  "exampleExecutor st =
     \<lparr>namespace_se = ''ns1'', user = ''u'', db = ''d'', charset = ''utf8'', collation = 33,
      status = st, txConns = [(''slice-0'', 1), (''slice-1'', 2)],
      ksConns = [(''slice-0'', 7), (''slice-1'', 8)],
      nsChangeIndexOld = 5, backend = []\<rparr>"

definition exampleConn :: ClientConn where
  "exampleConn =
     \<lparr>capability = ClientMultiStatements, namespace_c = ''ns1'', hasRecycledReadPacket = False,
      remoteAddr = ''10.0.0.5:4000'', out = [], recycledReads = 0, closeCount = 0\<rparr>"

definition exampleSession :: "uint16 \<Rightarrow> Session" where
  "exampleSession st =
     \<lparr>c = exampleConn, namespace = ''ns1'', executor = exampleExecutor st, closed = False,
      continueConn = None\<rparr>"

definition exampleEnv :: "bool \<Rightarrow> env" where
  "exampleEnv keep =
     \<lparr>isInTransaction = (\<lambda>se. status se AND ServerStatusInTrans \<noteq> 0),
      IsKeepSession = (\<lambda>se. keep),
      rollback = (\<lambda>se. (None, se\<lparr>txConns := []\<rparr>)),
      handleKsQuit = (\<lambda>se. se\<lparr>ksConns := []\<rparr>),
      recycleBackendConn = (\<lambda>se pc. se),
      SetContextNamespace = (\<lambda>se. se),
      ExecuteCommand = (\<lambda>m cmd data cc. (RespOK (status (executor cc)), cc)),
      doQuery = (\<lambda>ctx q cc. ((Some (Result q), None), ctx, cc)),
      SplitStatementToPieces = (\<lambda>q. Inr [''select 1'', ''select 2'', ''select 3'']),
      NewRequestContext = [],
      setContextSQLFingerprint = (\<lambda>ctx q. ctx),
      CalcPassword = (\<lambda>salt password. ''native'' @ salt @ password),
      mysql_CheckHashPassword = (\<lambda>auth salt hash. auth = ''hash'' @ salt @ hash),
      CalcCachingSha2Password = (\<lambda>salt password. ''sha2'' @ salt @ password),
      Collations = [33 \<mapsto> ''utf8_general_ci''],
      CollationNameToCharset = [''utf8_general_ci'' \<mapsto> ''utf8''],
      ErrTxNsChanged = OtherError ''namespace changed in transaction'',
      BuildBinaryResultSet = (\<lambda>rs. None),
      IsClientIPAllowed = (\<lambda>ns ip. True),
      pc_SetAutoCommit = (\<lambda>pc v. None),
      sockErr = (\<lambda>n. None)\<rparr>"





definition exampleInfo :: "string \<Rightarrow> bytes \<Rightarrow> string \<Rightarrow> HandshakeResponseInfo" where
  "exampleInfo usr auth plugin =
     \<lparr>User = usr, AuthResponse = auth, AuthPlugin = plugin, Salt = ''salt'',
      CollationID = 33, Database = ''d''\<rparr>"

definition exampleManagerConns :: "32 word option \<Rightarrow> Manager" where
  "exampleManagerConns cnt =
     (exampleManager 5 False)\<lparr>clientConnecions := (\<lambda>nm. if nm = ''ns1'' then cnt else None)\<rparr>"

section \<open>Properties of the user manager\<close>

lemma colonManager_created: "CreateUserManager colonConfigs NewUserManager = colonManager"
  by (simp add: colonConfigs_def colonManager_def NewUserManager_def addNamespaceUsers_def
      usersAt_def getUserKey_def)

text \<open>
  C10 (the code departs from the claim). \<open>ClearNamespaceUsers\<close> should remove only
  the pairs of the cleared namespace. With the password \<open>a:b\<close> the key \<open>u:a:b\<close>
  splits into three pieces, the password looked for is \<open>a\<close>, no element of
  \<open>users[u]\<close> matches, \<open>s\<close> stays nil and \<open>users[u]\<close> is overwritten with it: the
  pair \<open>(u, c)\<close> of namespace \<open>ns2\<close> keeps its key in \<open>userNamespaces\<close> but its
  password is gone from \<open>users\<close>, so no password check can accept it any more.
\<close>

theorem ClearNamespaceUsers_colon_password:
  "CreateUserManager colonConfigs NewUserManager = colonManager \<and>
   GetNamespaceByUser colonManager ''u'' ''c'' = ''ns2'' \<and>
   ''c'' \<in> set (usersAt colonManager ''u'') \<and>
   ClearNamespaceUsers ''ns1'' colonManager =
     Some \<lparr>users = [(''u'', [])], userNamespaces = [(''u:c'', ''ns2'')]\<rparr> \<and>
   ''c'' \<notin> set (usersAt \<lparr>users = [(''u'', [])], userNamespaces = [(''u:c'', ''ns2'')]\<rparr> ''u'')"
proof -
  have "ClearNamespaceUsers ''ns1'' colonManager =
          Some \<lparr>users = [(''u'', [])], userNamespaces = [(''u:c'', ''ns2'')]\<rparr>"
    by (simp add: ClearNamespaceUsers_def colonManager_def getUserAndPasswordFromKey_def
        removePassword_def usersAt_def shiftLeftAt_def)
  moreover have "GetNamespaceByUser colonManager ''u'' ''c'' = ''ns2''"
    by (simp add: GetNamespaceByUser_def colonManager_def getUserKey_def)
  moreover have "''c'' \<in> set (usersAt colonManager ''u'')"
    by (simp add: usersAt_def colonManager_def)
  ultimately show ?thesis
    by (simp add: colonManager_created usersAt_def)
qed

text \<open>
  Where no user name and no password contains a colon the code does what the claim
  says: on a consistent user manager every pair of another namespace survives
  \<open>ClearNamespaceUsers\<close>, in \<open>userNamespaces\<close> and in \<open>users\<close>. The in-place
  \<open>append\<close> of the inner loop keeps every password other than the one removed, as
  long as the one removed is found.
\<close>

lemma strings_Split_colonFree: "colonFree str \<Longrightarrow> strings_Split str = [str]"
  by (induction str) (auto simp: colonFree_def)

lemma strings_Split_key:
  "colonFree usr \<Longrightarrow> colonFree pw \<Longrightarrow> strings_Split (getUserKey usr pw) = [usr, pw]"
  by (induction usr) (auto simp: getUserKey_def colonFree_def strings_Split_colonFree)

lemma getUserKey_inject:
  assumes "colonFree usr" "colonFree pw" "colonFree usr'" "colonFree pw'"
    and "getUserKey usr pw = getUserKey usr' pw'"
  shows "usr = usr' \<and> pw = pw'"
proof -
  have "[usr, pw] = [usr', pw']"
    using assms strings_Split_key by metis
  then show ?thesis by simp
qed

lemma getUserAndPasswordFromKey_key:
  "colonFree usr \<Longrightarrow> colonFree pw \<Longrightarrow>
   getUserAndPasswordFromKey (getUserKey usr pw) = Some (usr, pw)"
  by (simp add: getUserAndPasswordFromKey_def strings_Split_key)

lemma length_shiftLeftAt: "i < length arr \<Longrightarrow> length (shiftLeftAt i arr) = length arr"
  by (simp add: shiftLeftAt_def)

lemma take_shiftLeftAt:
  "i < length arr \<Longrightarrow> take (length arr - Suc 0) (shiftLeftAt i arr) = take i arr @ drop (Suc i) arr"
  by (simp add: shiftLeftAt_def)

lemma removeLoop_keeps:
  "i + k = length arr \<Longrightarrow> x \<noteq> q \<Longrightarrow> s = None \<or> s = Some (length arr - 1) \<Longrightarrow>
   x \<in> set (case s of None \<Rightarrow> arr | Some n \<Rightarrow> take n arr) \<Longrightarrow>
   s \<noteq> None \<or> q \<in> set (drop i arr) \<Longrightarrow>
   x \<in> set (case removeLoop q k i arr s of (arr', None) \<Rightarrow> [] | (arr', Some n) \<Rightarrow> take n arr')"
proof (induction k arbitrary: i arr s)
  case 0
  then show ?case by auto
next
  case (Suc k)
  have i: "i < length arr" using Suc.prems(1) by simp
  show ?case
  proof (cases "arr ! i = q")
    case True
    have mem: "x \<in> set (take i arr @ drop (Suc i) arr)"
    proof -
      have "\<exists>p. p < length arr \<and> arr ! p = x"
      proof (cases s)
        case None
        with Suc.prems(4) show ?thesis by (auto simp: in_set_conv_nth)
      next
        case (Some n)
        with Suc.prems(4) have "x \<in> set arr" by (auto dest: in_set_takeD)
        then show ?thesis by (auto simp: in_set_conv_nth)
      qed
      then obtain p where p: "p < length arr" "arr ! p = x" by blast
      have "p \<noteq> i" using p(2) True Suc.prems(2) by auto
      then consider "p < i" | "i < p" by linarith
      then show ?thesis
      proof cases
        case 1
        then have "x \<in> set (take i arr)" using p i by (auto simp: in_set_conv_nth)
        then show ?thesis by simp
      next
        case 2
        then have "x = drop (Suc i) arr ! (p - Suc i)" "p - Suc i < length (drop (Suc i) arr)"
          using p by auto
        then have "x \<in> set (drop (Suc i) arr)" by (metis nth_mem)
        then show ?thesis by simp
      qed
    qed
    have "x \<in> set (case removeLoop q k (Suc i) (shiftLeftAt i arr) (Some (length arr - 1)) of
                    (arr', None) \<Rightarrow> [] | (arr', Some n) \<Rightarrow> take n arr')"
    proof (rule Suc.IH)
      show "Suc i + k = length (shiftLeftAt i arr)" using Suc.prems(1) i by (simp add: length_shiftLeftAt)
      show "x \<noteq> q" by (rule Suc.prems(2))
      show "Some (length arr - 1) = None \<or> Some (length arr - 1) = Some (length (shiftLeftAt i arr) - 1)"
        using i by (simp add: length_shiftLeftAt)
      show "x \<in> set (case Some (length arr - 1) of None \<Rightarrow> shiftLeftAt i arr
                      | Some n \<Rightarrow> take n (shiftLeftAt i arr))"
        using mem i by (simp add: take_shiftLeftAt)
      show "Some (length arr - 1) \<noteq> None \<or> q \<in> set (drop (Suc i) (shiftLeftAt i arr))" by simp
    qed
    then show ?thesis using True by simp
  next
    case False
    have d: "drop i arr = arr ! i # drop (Suc i) arr" using i by (simp add: Cons_nth_drop_Suc)
    have "x \<in> set (case removeLoop q k (Suc i) arr s of
                    (arr', None) \<Rightarrow> [] | (arr', Some n) \<Rightarrow> take n arr')"
    proof (rule Suc.IH)
      show "Suc i + k = length arr" using Suc.prems(1) by simp
      show "x \<noteq> q" by (rule Suc.prems(2))
      show "s = None \<or> s = Some (length arr - 1)" by (rule Suc.prems(3))
      show "x \<in> set (case s of None \<Rightarrow> arr | Some n \<Rightarrow> take n arr)" by (rule Suc.prems(4))
      show "s \<noteq> None \<or> q \<in> set (drop (Suc i) arr)" using Suc.prems(5) d False by auto
    qed
    then show ?thesis using False by simp
  qed
qed

lemma removePassword_keeps:
  assumes "q \<in> set ps" "x \<in> set ps" "x \<noteq> q"
  shows "x \<in> set (removePassword q ps)"
  using removeLoop_keeps [of 0 "length ps" ps x q None] assms
  by (simp add: removePassword_def)

lemma usersAt_update:
  "usersAt (u\<lparr>userNamespaces := ns', users := AList.update usr v (users u)\<rparr>) usr' =
     (if usr' = usr then v else usersAt u usr')"
  by (simp add: usersAt_def update_conv')

lemma clearLoop_keeps:
  "distinct (map fst entries) \<Longrightarrow>
   \<forall>(key, ns) \<in> set entries. \<exists>usr pw. key = getUserKey usr pw \<and> colonFree usr \<and> colonFree pw \<and>
                                 pw \<in> set (usersAt u usr) \<Longrightarrow>
   colonFree usr0 \<Longrightarrow> colonFree pw0 \<Longrightarrow>
   map_of (userNamespaces u) (getUserKey usr0 pw0) = Some M \<Longrightarrow>
   pw0 \<in> set (usersAt u usr0) \<Longrightarrow>
   \<forall>ns. (getUserKey usr0 pw0, ns) \<in> set entries \<longrightarrow> ns \<noteq> N \<Longrightarrow>
   \<exists>u'. clearLoop N entries u = Some u' \<and>
        map_of (userNamespaces u') (getUserKey usr0 pw0) = Some M \<and>
        pw0 \<in> set (usersAt u' usr0)"
proof (induction entries arbitrary: u)
  case Nil
  then show ?case by simp
next
  case (Cons e entries)
  obtain key ns where e: "e = (key, ns)" by (cases e)
  from Cons.prems(2) e obtain usr pw where
    k: "key = getUserKey usr pw" "colonFree usr" "colonFree pw" "pw \<in> set (usersAt u usr)"
    by auto
  have dist: "distinct (map fst entries)" and notin: "key \<notin> fst ` set entries"
    using Cons.prems(1) e by auto
  have rest_target: "\<forall>ns. (getUserKey usr0 pw0, ns) \<in> set entries \<longrightarrow> ns \<noteq> N"
    using Cons.prems(7) by auto
  show ?case
  proof (cases "ns = N")
    case False
    have "\<forall>(key, ns) \<in> set entries. \<exists>usr pw. key = getUserKey usr pw \<and> colonFree usr \<and>
            colonFree pw \<and> pw \<in> set (usersAt u usr)"
      using Cons.prems(2) by auto
    from Cons.IH [OF dist this Cons.prems(3,4,5,6) rest_target]
    show ?thesis using False e by simp
  next
    case True
    define u1 where
      "u1 = u\<lparr>userNamespaces := AList.delete key (userNamespaces u),
               users := AList.update usr (removePassword pw (usersAt u usr)) (users u)\<rparr>"
    have step: "clearLoop N (e # entries) u = clearLoop N entries u1"
      using True e k by (simp add: getUserAndPasswordFromKey_key u1_def)
    have other: "pw' \<in> set (usersAt u1 usr')"
      if "colonFree usr'" "colonFree pw'" "pw' \<in> set (usersAt u usr')"
         "getUserKey usr' pw' \<noteq> key" for usr' pw'
    proof (cases "usr' = usr")
      case True
      with that(4) k(1) have "pw' \<noteq> pw" by auto
      with that(3) k(4) True show ?thesis
        by (simp add: u1_def usersAt_update removePassword_keeps)
    next
      case False
      with that(3) show ?thesis by (simp add: u1_def usersAt_update)
    qed
    have key0: "getUserKey usr0 pw0 \<noteq> key"
      using Cons.prems(7) e True by auto
    have inv: "\<forall>(key, ns) \<in> set entries. \<exists>usr pw. key = getUserKey usr pw \<and> colonFree usr \<and>
                 colonFree pw \<and> pw \<in> set (usersAt u1 usr)"
    proof (clarify)
      fix key' ns'
      assume m: "(key', ns') \<in> set entries"
      with Cons.prems(2) obtain usr' pw' where
        k': "key' = getUserKey usr' pw'" "colonFree usr'" "colonFree pw'"
            "pw' \<in> set (usersAt u usr')"
        by fastforce
      have "key' \<noteq> key" using m notin by force
      with k' other have "pw' \<in> set (usersAt u1 usr')" by simp
      with k' show "\<exists>usr pw. key' = getUserKey usr pw \<and> colonFree usr \<and> colonFree pw \<and>
                             pw \<in> set (usersAt u1 usr)"
        by blast
    qed
    have map0: "map_of (userNamespaces u1) (getUserKey usr0 pw0) = Some M"
      using Cons.prems(5) key0 by (simp add: u1_def)
    have pw0: "pw0 \<in> set (usersAt u1 usr0)"
      using other [OF Cons.prems(3,4,6) key0] .
    from Cons.IH [OF dist inv Cons.prems(3,4) map0 pw0 rest_target]
    show ?thesis by (simp add: step)
  qed
qed

lemma ClearNamespaceUsers_keeps_other_pairs:
  assumes "consistentUsers u"
    and "colonFree usr0" "colonFree pw0"
    and "map_of (userNamespaces u) (getUserKey usr0 pw0) = Some M"
    and "M \<noteq> N"
  shows "\<exists>u'. ClearNamespaceUsers N u = Some u' \<and>
              GetNamespaceByUser u' usr0 pw0 = M \<and> pw0 \<in> set (usersAt u' usr0)"
proof -
  have dist: "distinct (map fst (userNamespaces u))"
    and inv: "\<forall>(key, ns) \<in> set (userNamespaces u).
               \<exists>usr pw. key = getUserKey usr pw \<and> colonFree usr \<and> colonFree pw \<and>
                        pw \<in> set (usersAt u usr)"
    using assms(1) by (simp_all add: consistentUsers_def)
  have mem: "(getUserKey usr0 pw0, M) \<in> set (userNamespaces u)"
    using assms(4) by (rule map_of_SomeD)
  with inv obtain usr pw where
    k: "getUserKey usr0 pw0 = getUserKey usr pw" "colonFree usr" "colonFree pw"
       "pw \<in> set (usersAt u usr)"
    by fastforce
  from getUserKey_inject [OF assms(2,3) k(2,3) k(1)] k(4)
  have pw0: "pw0 \<in> set (usersAt u usr0)" by simp
  have target: "\<forall>ns. (getUserKey usr0 pw0, ns) \<in> set (userNamespaces u) \<longrightarrow> ns \<noteq> N"
  proof (intro allI impI)
    fix ns assume "(getUserKey usr0 pw0, ns) \<in> set (userNamespaces u)"
    with dist have "map_of (userNamespaces u) (getUserKey usr0 pw0) = Some ns" by simp
    with assms(4,5) show "ns \<noteq> N" by simp
  qed
  from clearLoop_keeps [OF dist inv assms(2,3,4) pw0 target]
  show ?thesis by (auto simp: ClearNamespaceUsers_def GetNamespaceByUser_def)
qed

lemma ClearNamespaceUsers_without_colon:
  "ClearNamespaceUsers ''ns1''
     \<lparr>users = [(''u'', [''ab'', ''c''])],
      userNamespaces = [(''u:ab'', ''ns1''), (''u:c'', ''ns2'')]\<rparr> =
   Some \<lparr>users = [(''u'', [''c''])], userNamespaces = [(''u:c'', ''ns2'')]\<rparr>"
  by (simp add: ClearNamespaceUsers_def getUserAndPasswordFromKey_def removePassword_def
      usersAt_def shiftLeftAt_def)

section \<open>Properties of the hot reload\<close>

lemma word32_less_succ: "(x :: uint32) \<noteq> 0xFFFFFFFF \<Longrightarrow> x < x + 1"
proof -
  assume "x \<noteq> 0xFFFFFFFF"
  moreover have "(- 1 :: uint32) = 0xFFFFFFFF" by simp
  ultimately have "x \<noteq> - 1" by metis
  then show ?thesis
    by (metis inc_less_eq_triv_imp linorder_not_le)
qed

lemma prepare_effect:
  assumes "ReloadNamespacePrepare NewNamespace cfg m = (None, m1)"
  shows "reloadPrepared m1 \<and> switchIndex m1 = switchIndex m \<and>
         (\<exists>ns. namespaces (namespaces_m m1 (if switchIndex m then 0 else 1)) =
                  (namespaces (namespaces_m m (if switchIndex m then 1 else 0)))(Name cfg \<mapsto> ns) \<and>
               namespaceChangeIndex ns = changeIndexOf m (Name cfg) + 1)"
  using assms
  by (auto simp: ReloadNamespacePrepare_def BoolIndex_Get_def Let_def RebuildNamespace_def
      changeIndexOf_def GetNamespace_def NamespaceManager_GetNamespace_def
      ShallowCopyNamespaceManager_def split: option.splits sum.splits if_splits)

lemma commit_effect:
  assumes "reloadPrepared m1"
  shows "\<exists>m2. ReloadNamespaceCommit nm m1 = (None, m2) \<and> switchIndex m2 = (\<not> switchIndex m1) \<and>
              namespaces_m m2 = namespaces_m m1 \<and> users_m m2 = users_m m1 \<and> \<not> reloadPrepared m2"
  using assms
  by (auto simp: ReloadNamespaceCommit_def BoolIndex_Get_def Let_def split: option.splits)

lemma reload_step:
  assumes "ReloadNamespacePrepare NewNamespace cfg m = (None, m1)"
  shows "\<exists>m2. ReloadNamespaceCommit (Name cfg) m1 = (None, m2) \<and>
              (\<forall>nm. changeIndexOf m2 nm =
                      (if nm = Name cfg then changeIndexOf m nm + 1 else changeIndexOf m nm)) \<and>
              GetNamespace m2 (Name cfg) \<noteq> None"
proof -
  from prepare_effect [OF assms] obtain ns where
    p: "reloadPrepared m1" "switchIndex m1 = switchIndex m"
       "namespaces (namespaces_m m1 (if switchIndex m then 0 else 1)) =
          (namespaces (namespaces_m m (if switchIndex m then 1 else 0)))(Name cfg \<mapsto> ns)"
       "namespaceChangeIndex ns = changeIndexOf m (Name cfg) + 1"
    by blast
  from commit_effect [OF p(1), of "Name cfg"] obtain m2 where
    c: "ReloadNamespaceCommit (Name cfg) m1 = (None, m2)" "switchIndex m2 = (\<not> switchIndex m1)"
       "namespaces_m m2 = namespaces_m m1"
    by blast
  have "\<forall>nm. changeIndexOf m2 nm =
          (if nm = Name cfg then changeIndexOf m nm + 1 else changeIndexOf m nm)"
    using p c
    by (auto simp: changeIndexOf_def GetNamespace_def BoolIndex_Get_def
        NamespaceManager_GetNamespace_def split: if_splits)
  moreover have "GetNamespace m2 (Name cfg) \<noteq> None"
    using p c
    by (auto simp: GetNamespace_def BoolIndex_Get_def NamespaceManager_GetNamespace_def
        split: if_splits)
  ultimately show ?thesis using c(1) by blast
qed

lemma prep_eval: "ReloadNamespacePrepare exampleNewNamespace exampleConfig (exampleManager idx False) =
   (None, \<lparr>reloadPrepared = True, switchIndex = False,
      namespaces_m = (\<lambda>_. \<lparr>namespaces = [''ns1'' \<mapsto> exampleNamespace ''ns1'' idx]\<rparr>)
          (Suc 0 := \<lparr>namespaces = [''ns1'' \<mapsto> exampleNamespace ''ns1'' (idx + 1)]\<rparr>),
      users_m = (\<lambda>_. exampleUsers)(Suc 0 := exampleUsers),
      clientConnecions = Map.empty, SQLResponsePercentile = {''ns1''}, delayedClose = []\<rparr>)"
  by (simp add: ReloadNamespacePrepare_def exampleNewNamespace_def exampleConfig_def exampleManager_def
      BoolIndex_Get_def NamespaceManager_GetNamespace_def ShallowCopyNamespaceManager_def RebuildNamespace_def
      RebuildNamespaceUsers_def CloneUserManager_def exampleUsers_def ClearNamespaceUsers_def
      getUserAndPasswordFromKey_def removePassword_def usersAt_def shiftLeftAt_def addNamespaceUsers_def
      getUserKey_def exampleNamespace_def Let_def)

lemma prep_eval_fresh:
  "ReloadNamespacePrepare exampleNewNamespace \<lparr>Name = ''ns2'', Users = []\<rparr> (exampleManager idx False) =
   (None, \<lparr>reloadPrepared = True, switchIndex = False,
      namespaces_m = (\<lambda>_. \<lparr>namespaces = [''ns1'' \<mapsto> exampleNamespace ''ns1'' idx]\<rparr>)
          (Suc 0 := \<lparr>namespaces = [''ns1'' \<mapsto> exampleNamespace ''ns1'' idx,
                                    ''ns2'' \<mapsto> exampleNamespace ''ns2'' 1]\<rparr>),
      users_m = (\<lambda>_. exampleUsers)(Suc 0 := exampleUsers),
      clientConnecions = Map.empty, SQLResponsePercentile = {''ns2''}, delayedClose = []\<rparr>)"
  by (simp add: ReloadNamespacePrepare_def exampleNewNamespace_def exampleManager_def
      BoolIndex_Get_def NamespaceManager_GetNamespace_def ShallowCopyNamespaceManager_def RebuildNamespace_def
      RebuildNamespaceUsers_def CloneUserManager_def exampleUsers_def ClearNamespaceUsers_def
      addNamespaceUsers_def exampleNamespace_def Let_def)

text \<open>
  C4 (amended). A successful \<open>ReloadNamespacePrepare\<close> followed by
  \<open>ReloadNamespaceCommit\<close> on the same name succeeds, and the namespace then current
  under that name carries the change index of the replaced version plus one in
  \<open>uint32\<close> arithmetic (one when the namespace did not exist). The new index is
  strictly greater than the old one whenever the old one is below \<open>2^32 - 1\<close>.
\<close>

theorem reload_changeIndex_successor:
  assumes "ReloadNamespacePrepare NewNamespace cfg m = (None, m1)"
  shows "\<exists>m2 ns. ReloadNamespaceCommit (Name cfg) m1 = (None, m2) \<and>
                 GetNamespace m2 (Name cfg) = Some ns \<and>
                 namespaceChangeIndex ns = changeIndexOf m (Name cfg) + 1 \<and>
                 (GetNamespace m (Name cfg) = None \<longrightarrow> namespaceChangeIndex ns = 1) \<and>
                 (changeIndexOf m (Name cfg) \<noteq> 0xFFFFFFFF \<longrightarrow>
                    changeIndexOf m (Name cfg) < namespaceChangeIndex ns)"
proof -
  from reload_step [OF assms] obtain m2 where
    s: "ReloadNamespaceCommit (Name cfg) m1 = (None, m2)"
       "\<forall>nm. changeIndexOf m2 nm =
               (if nm = Name cfg then changeIndexOf m nm + 1 else changeIndexOf m nm)"
       "GetNamespace m2 (Name cfg) \<noteq> None"
    by blast
  from s(3) obtain ns where ns: "GetNamespace m2 (Name cfg) = Some ns" by blast
  from s(2) [rule_format, of "Name cfg"] ns
  have idx: "namespaceChangeIndex ns = changeIndexOf m (Name cfg) + 1"
    by (simp add: changeIndexOf_def)
  have fresh: "GetNamespace m (Name cfg) = None \<longrightarrow> namespaceChangeIndex ns = 1"
    using idx by (simp add: changeIndexOf_def)
  have greater: "changeIndexOf m (Name cfg) \<noteq> 0xFFFFFFFF \<longrightarrow>
                   changeIndexOf m (Name cfg) < namespaceChangeIndex ns"
    using idx word32_less_succ by simp
  show ?thesis
  proof (intro exI conjI)
    show "ReloadNamespaceCommit (Name cfg) m1 = (None, m2)" by (rule s(1))
    show "GetNamespace m2 (Name cfg) = Some ns" by (rule ns)
    show "namespaceChangeIndex ns = changeIndexOf m (Name cfg) + 1" by (rule idx)
    show "GetNamespace m (Name cfg) = None \<longrightarrow> namespaceChangeIndex ns = 1" by (rule fresh)
    show "changeIndexOf m (Name cfg) \<noteq> 0xFFFFFFFF \<longrightarrow>
            changeIndexOf m (Name cfg) < namespaceChangeIndex ns" by (rule greater)
  qed
qed

theorem reload_changeIndex_successor_witness:
  "fst (ReloadNamespacePrepare exampleNewNamespace exampleConfig (exampleManager 5 False)) = None \<and>
   changeIndexOf (exampleManager 5 False) ''ns1'' = 5 \<and>
   (\<exists>m2 ns. ReloadNamespaceCommit ''ns1''
              (snd (ReloadNamespacePrepare exampleNewNamespace exampleConfig (exampleManager 5 False)))
                = (None, m2) \<and>
            GetNamespace m2 ''ns1'' = Some ns \<and> namespaceChangeIndex ns = 6 \<and>
            (5 :: uint32) < namespaceChangeIndex ns) \<and>
   GetNamespace (exampleManager 5 False) ''ns2'' = None \<and>
   (\<exists>m2 ns. ReloadNamespaceCommit ''ns2''
              (snd (ReloadNamespacePrepare exampleNewNamespace \<lparr>Name = ''ns2'', Users = []\<rparr>
                      (exampleManager 5 False)))
                = (None, m2) \<and>
            GetNamespace m2 ''ns2'' = Some ns \<and> namespaceChangeIndex ns = 1)"
proof -
  define m1 where
    "m1 = snd (ReloadNamespacePrepare exampleNewNamespace exampleConfig (exampleManager 5 False))"
  define m1' where
    "m1' = snd (ReloadNamespacePrepare exampleNewNamespace \<lparr>Name = ''ns2'', Users = []\<rparr>
                  (exampleManager 5 False))"
  have p: "ReloadNamespacePrepare exampleNewNamespace exampleConfig (exampleManager 5 False) =
             (None, m1)"
    unfolding m1_def prep_eval by simp
  have p': "ReloadNamespacePrepare exampleNewNamespace \<lparr>Name = ''ns2'', Users = []\<rparr>
              (exampleManager 5 False) = (None, m1')"
    unfolding m1'_def prep_eval_fresh by simp
  have ci: "changeIndexOf (exampleManager 5 False) ''ns1'' = 5"
    by (simp add: changeIndexOf_def GetNamespace_def exampleManager_def BoolIndex_Get_def
        NamespaceManager_GetNamespace_def exampleNamespace_def)
  have fresh: "GetNamespace (exampleManager 5 False) ''ns2'' = None"
    by (simp add: GetNamespace_def exampleManager_def BoolIndex_Get_def
        NamespaceManager_GetNamespace_def)
  have n: "Name exampleConfig = ''ns1''" by (simp add: exampleConfig_def)
  from reload_changeIndex_successor [OF p] obtain m2 ns where
    r: "ReloadNamespaceCommit ''ns1'' m1 = (None, m2)" "GetNamespace m2 ''ns1'' = Some ns"
       "namespaceChangeIndex ns = 6" "(5 :: uint32) < namespaceChangeIndex ns"
    unfolding n ci by auto
  from reload_changeIndex_successor [OF p'] fresh obtain m2' ns' where
    r': "ReloadNamespaceCommit ''ns2'' m1' = (None, m2')" "GetNamespace m2' ''ns2'' = Some ns'"
        "namespaceChangeIndex ns' = 1"
    by auto
  have "fst (ReloadNamespacePrepare exampleNewNamespace exampleConfig (exampleManager 5 False)) = None"
    by (simp add: p)
  with ci r r' fresh show ?thesis unfolding m1_def [symmetric] m1'_def [symmetric] by blast
qed

text \<open>
  The claim as stated fails where the \<open>uint32\<close> wraps: a namespace whose change
  index is \<open>2^32 - 1\<close> is replaced by one whose index is \<open>0\<close>.
\<close>

theorem reload_changeIndex_wraps:
  "fst (ReloadNamespacePrepare exampleNewNamespace exampleConfig (exampleManager 0xFFFFFFFF False)) = None \<and>
   fst (ReloadNamespaceCommit ''ns1''
          (snd (ReloadNamespacePrepare exampleNewNamespace exampleConfig
                  (exampleManager 0xFFFFFFFF False)))) = None \<and>
   changeIndexOf (exampleManager 0xFFFFFFFF False) ''ns1'' = 0xFFFFFFFF \<and>
   changeIndexOf (snd (ReloadNamespaceCommit ''ns1''
          (snd (ReloadNamespacePrepare exampleNewNamespace exampleConfig
                  (exampleManager 0xFFFFFFFF False))))) ''ns1'' = 0 \<and>
   \<not> changeIndexOf (exampleManager 0xFFFFFFFF False) ''ns1'' <
       changeIndexOf (snd (ReloadNamespaceCommit ''ns1''
          (snd (ReloadNamespacePrepare exampleNewNamespace exampleConfig
                  (exampleManager 0xFFFFFFFF False))))) ''ns1''"
  unfolding prep_eval
  by (simp add: ReloadNamespaceCommit_def BoolIndex_Get_def NamespaceManager_GetNamespace_def
     changeIndexOf_def GetNamespace_def exampleManager_def exampleNamespace_def Let_def)

text \<open>
  Across a run of reloads the index of a name grows by the number of reloads of that
  name and is untouched by the reloads of other names, as long as it stays below
  \<open>2^32\<close>.
\<close>

lemma reloadAll_changeIndex:
  "reloadAll NewNamespace cfgs m = Some m' \<Longrightarrow>
   unat (changeIndexOf m nm) + length (filter (\<lambda>cfg. Name cfg = nm) cfgs) < 2 ^ 32 \<Longrightarrow>
   unat (changeIndexOf m' nm) = unat (changeIndexOf m nm) + length (filter (\<lambda>cfg. Name cfg = nm) cfgs)"
proof (induction cfgs arbitrary: m)
  case Nil
  then show ?case by simp
next
  case (Cons cfg cfgs)
  from Cons.prems(1) obtain m1 where p: "ReloadNamespacePrepare NewNamespace cfg m = (None, m1)"
    by (auto split: prod.splits option.splits)
  from reload_step [OF p] obtain m2 where
    s: "ReloadNamespaceCommit (Name cfg) m1 = (None, m2)"
       "\<forall>nm. changeIndexOf m2 nm =
               (if nm = Name cfg then changeIndexOf m nm + 1 else changeIndexOf m nm)"
    by blast
  from Cons.prems(1) p s(1) have r: "reloadAll NewNamespace cfgs m2 = Some m'" by simp
  show ?case
  proof (cases "Name cfg = nm")
    case True
    with Cons.prems(2) have b: "unat (changeIndexOf m nm) + 1 < 2 ^ 32" by simp
    then have u: "unat (changeIndexOf m nm + 1) = unat (changeIndexOf m nm) + 1"
      by (simp add: unat_word_ariths)
    with s(2) True have "unat (changeIndexOf m2 nm) = unat (changeIndexOf m nm) + 1" by simp
    with Cons.IH [OF r] Cons.prems(2) True show ?thesis by simp
  next
    case False
    with s(2) have "changeIndexOf m2 nm = changeIndexOf m nm" by simp
    with Cons.IH [OF r] Cons.prems(2) False show ?thesis by simp
  qed
qed

text \<open>
  C6. \<open>ReloadNamespaceCommit\<close> succeeds exactly when a prepare is outstanding.
  Without one it returns \<open>ErrNamespaceNotPrepared\<close> and leaves the manager as it was
  (the active index and both pairs of slots included); with one it clears
  \<open>reloadPrepared\<close>, negates the active index once and leaves the slots alone.
\<close>

theorem ReloadNamespaceCommit_prepared:
  "(fst (ReloadNamespaceCommit nm m) = None \<longleftrightarrow> reloadPrepared m) \<and>
   (\<not> reloadPrepared m \<longrightarrow> ReloadNamespaceCommit nm m = (Some ErrNamespaceNotPrepared, m)) \<and>
   (reloadPrepared m \<longrightarrow>
      \<not> reloadPrepared (snd (ReloadNamespaceCommit nm m)) \<and>
      switchIndex (snd (ReloadNamespaceCommit nm m)) = (\<not> switchIndex m) \<and>
      namespaces_m (snd (ReloadNamespaceCommit nm m)) = namespaces_m m \<and>
      users_m (snd (ReloadNamespaceCommit nm m)) = users_m m)"
  by (auto simp: ReloadNamespaceCommit_def BoolIndex_Get_def Let_def split: option.splits)

theorem ReloadNamespaceCommit_prepared_witness:
  "ReloadNamespaceCommit ''ns1'' (exampleManager 5 False) =
     (Some ErrNamespaceNotPrepared, exampleManager 5 False) \<and>
   fst (ReloadNamespaceCommit ''ns1'' (exampleManager 5 True)) = None \<and>
   \<not> reloadPrepared (snd (ReloadNamespaceCommit ''ns1'' (exampleManager 5 True))) \<and>
   switchIndex (snd (ReloadNamespaceCommit ''ns1'' (exampleManager 5 True))) \<and>
   \<not> switchIndex (exampleManager 5 True) \<and>
   namespaces_m (snd (ReloadNamespaceCommit ''ns1'' (exampleManager 5 True))) =
     namespaces_m (exampleManager 5 True)"
  using ReloadNamespaceCommit_prepared [of "''ns1''" "exampleManager 5 False"]
        ReloadNamespaceCommit_prepared [of "''ns1''" "exampleManager 5 True"]
  by (simp add: exampleManager_def)

section \<open>Properties of the session\<close>

text \<open>
  C9. \<open>Session.Close\<close> is idempotent: on a closed session it changes nothing (the
  executor, on which \<open>rollback\<close> and \<open>handleKsQuit\<close> act, and the count of socket
  closes included), after any call \<open>IsClosed\<close> holds, and closing twice gives the state
  of closing once. On an open session the socket is closed exactly once.
\<close>

theorem Close_idempotent:
  "Close E (Close E cc) = Close E cc \<and> IsClosed (Close E cc) \<and>
   (IsClosed cc \<longrightarrow> Close E cc = cc) \<and>
   (\<not> IsClosed cc \<longrightarrow> closeCount (c (Close E cc)) = closeCount (c cc) + 1)"
  by (simp add: Close_def IsClosed_def Let_def)

theorem Close_idempotent_witness:
  "\<not> IsClosed (exampleSession 3) \<and>
   IsClosed (Close (exampleEnv True) (exampleSession 3)) \<and>
   closeCount (c (Close (exampleEnv True) (exampleSession 3))) = 1 \<and>
   Close (exampleEnv True) (Close (exampleEnv True) (exampleSession 3)) =
     Close (exampleEnv True) (exampleSession 3)"
  using Close_idempotent [of "exampleEnv True" "exampleSession 3"]
        Close_idempotent [of "exampleEnv True" "Close (exampleEnv True) (exampleSession 3)"]
  by (simp add: IsClosed_def exampleSession_def exampleConn_def)



lemma Close_closed: "closed (Close E cc)"
  by (simp add: Close_def IsClosed_def Let_def)


lemma RunDeferred_closed: "closed (fst (RunDeferred E cc))"
  by (simp add: RunDeferred_def Close_closed)










lemma exampleManager_GetNamespace:
  "GetNamespace (exampleManager idx prepared) ''ns1'' = Some (exampleNamespace ''ns1'' idx)"
  by (simp add: GetNamespace_def exampleManager_def BoolIndex_Get_def NamespaceManager_GetNamespace_def)







section \<open>Properties of the handshake\<close>

lemma example_currentUsers: "currentUsers (exampleManager idx prepared) = exampleUsers"
  by (simp add: currentUsers_def exampleManager_def BoolIndex_Get_def)

lemma example_handshake_ok:
  "handleHandshakeResponse (exampleEnv True) (exampleManager 5 False)
     (exampleInfo ''u'' ''nativesaltp'' []) cc =
   (None,
    cc\<lparr>executor := (executor cc)\<lparr>user := ''u'', collation := 33, charset := ''utf8'',
                                  db := ''d'', namespace_se := ''ns1''\<rparr>,
       namespace := ''ns1'', c := (c cc)\<lparr>namespace_c := ''ns1''\<rparr>\<rparr>)"
  by (simp add: handleHandshakeResponse_def exampleInfo_def Manager_CheckUser_def
      Manager_CheckHashPassword_def Manager_CheckPassword_def Manager_GetNamespaceByUser_def
      example_currentUsers CheckUser_def CheckHashPassword_def CheckPassword_def
      GetNamespaceByUser_def getUserKey_def exampleUsers_def usersAt_def exampleEnv_def Let_def)

lemma exampleManagerConns_facts:
  "GetNamespace (exampleManagerConns cnt) ''ns1'' = Some (exampleNamespace ''ns1'' 5)"
  "clientConnecions (exampleManagerConns cnt) ''ns1'' = cnt"
  "currentUsers (exampleManagerConns cnt) = exampleUsers"
  "switchIndex (exampleManagerConns cnt) = False"
  by (simp_all add: exampleManagerConns_def GetNamespace_def exampleManager_def BoolIndex_Get_def
      NamespaceManager_GetNamespace_def currentUsers_def)

lemma example_handshake_ok_conns:
  "handleHandshakeResponse (exampleEnv True) (exampleManagerConns cnt)
     (exampleInfo ''u'' ''nativesaltp'' []) cc =
   (None,
    cc\<lparr>executor := (executor cc)\<lparr>user := ''u'', collation := 33, charset := ''utf8'',
                                  db := ''d'', namespace_se := ''ns1''\<rparr>,
       namespace := ''ns1'', c := (c cc)\<lparr>namespace_c := ''ns1''\<rparr>\<rparr>)"
  by (simp add: handleHandshakeResponse_def exampleInfo_def Manager_CheckUser_def
      Manager_CheckHashPassword_def Manager_CheckPassword_def Manager_GetNamespaceByUser_def
      exampleManagerConns_facts CheckUser_def CheckHashPassword_def CheckPassword_def
      GetNamespaceByUser_def getUserKey_def exampleUsers_def usersAt_def exampleEnv_def Let_def)

text \<open>
  C3. \<open>handleHandshakeResponse\<close> authenticates as the spec orders it. A user that is
  not in the users map is denied. Otherwise the scheme is the one \<open>spec_scheme\<close>
  names (empty plugin and a 32-byte response: SHA-256 caching; empty plugin and any other
  length: native hash, then classic; plugin \<open>caching_sha2_password\<close>: SHA-256 caching;
  anything else: classic); when the scheme accepts no password the result is
  \<open>ErrAccessDenied\<close>, and when it accepts one the result is never \<open>ErrAccessDenied\<close>
  and on success the namespace of the session is the one of the accepted password.
\<close>

theorem handshake_authentication:
  "(\<not> Manager_CheckUser m (User info) \<longrightarrow>
      fst (handleHandshakeResponse E m info cc) = Some ErrAccessDenied) \<and>
   (Manager_CheckUser m (User info) \<and> \<not> fst (spec_verify E m info) \<longrightarrow>
      fst (handleHandshakeResponse E m info cc) = Some ErrAccessDenied) \<and>
   (Manager_CheckUser m (User info) \<and> fst (spec_verify E m info) \<longrightarrow>
      fst (handleHandshakeResponse E m info cc) \<noteq> Some ErrAccessDenied \<and>
      (fst (handleHandshakeResponse E m info cc) = None \<longrightarrow>
         namespace (snd (handleHandshakeResponse E m info cc)) =
           Manager_GetNamespaceByUser m (User info) (snd (spec_verify E m info))))"
  by (auto simp: handleHandshakeResponse_def spec_verify_def spec_scheme_def Let_def
      CachingSHA2Password_def split: prod.splits option.splits bool.splits if_splits)

theorem handshake_authentication_witness:
  "fst (handleHandshakeResponse (exampleEnv True) (exampleManager 5 False)
          (exampleInfo ''nobody'' ''nativesaltp'' []) (exampleSession 2)) = Some ErrAccessDenied \<and>
   fst (handleHandshakeResponse (exampleEnv True) (exampleManager 5 False)
          (exampleInfo ''u'' ''wrong'' ''mysql_native_password'') (exampleSession 2))
     = Some ErrAccessDenied \<and>
   spec_scheme (exampleInfo ''u'' ''nativesaltp'' []) = NativeHashThenClassic \<and>
   fst (handleHandshakeResponse (exampleEnv True) (exampleManager 5 False)
          (exampleInfo ''u'' ''nativesaltp'' []) (exampleSession 2)) = None \<and>
   namespace (snd (handleHandshakeResponse (exampleEnv True) (exampleManager 5 False)
          (exampleInfo ''u'' ''nativesaltp'' []) (exampleSession 2))) = ''ns1''"
proof -
  let ?E = "exampleEnv True" and ?m = "exampleManager 5 False"
  have u1: "\<not> Manager_CheckUser ?m (User (exampleInfo ''nobody'' ''nativesaltp'' []))"
    by (simp add: Manager_CheckUser_def example_currentUsers CheckUser_def exampleUsers_def
        exampleInfo_def)
  have u2: "Manager_CheckUser ?m (User (exampleInfo ''u'' auth plugin))" for auth plugin
    by (simp add: Manager_CheckUser_def example_currentUsers CheckUser_def exampleUsers_def
        exampleInfo_def)
  have v2: "\<not> fst (spec_verify ?E ?m (exampleInfo ''u'' ''wrong'' ''mysql_native_password''))"
    by (simp add: spec_verify_def spec_scheme_def exampleInfo_def Manager_CheckPassword_def
        example_currentUsers CheckPassword_def exampleUsers_def usersAt_def exampleEnv_def)
  have s3: "spec_scheme (exampleInfo ''u'' ''nativesaltp'' []) = NativeHashThenClassic"
    by (simp add: spec_scheme_def exampleInfo_def)
  have v3: "spec_verify ?E ?m (exampleInfo ''u'' ''nativesaltp'' []) = (True, ''p'')"
    by (simp add: spec_verify_def s3)
       (simp add: exampleInfo_def Manager_CheckPassword_def Manager_CheckHashPassword_def
        example_currentUsers CheckPassword_def CheckHashPassword_def exampleUsers_def usersAt_def
        exampleEnv_def)
  have n3: "Manager_GetNamespaceByUser ?m ''u'' ''p'' = ''ns1''"
    by (simp add: Manager_GetNamespaceByUser_def example_currentUsers GetNamespaceByUser_def
        exampleUsers_def getUserKey_def)
  have ok: "fst (handleHandshakeResponse ?E ?m (exampleInfo ''u'' ''nativesaltp'' [])
                   (exampleSession 2)) = None"
    by (simp add: example_handshake_ok)
  have usr: "User (exampleInfo ''u'' ''nativesaltp'' []) = ''u''"
    by (simp add: exampleInfo_def)
  from handshake_authentication [of ?m "exampleInfo ''nobody'' ''nativesaltp'' []" ?E "exampleSession 2"] u1
  have a: "fst (handleHandshakeResponse ?E ?m (exampleInfo ''nobody'' ''nativesaltp'' [])
                  (exampleSession 2)) = Some ErrAccessDenied"
    by blast
  from handshake_authentication [of ?m "exampleInfo ''u'' ''wrong'' ''mysql_native_password''" ?E "exampleSession 2"] u2 v2
  have b: "fst (handleHandshakeResponse ?E ?m (exampleInfo ''u'' ''wrong'' ''mysql_native_password'')
                  (exampleSession 2)) = Some ErrAccessDenied"
    by blast
  from handshake_authentication [of ?m "exampleInfo ''u'' ''nativesaltp'' []" ?E "exampleSession 2"]
       u2 v3 ok
  have c3: "namespace (snd (handleHandshakeResponse ?E ?m (exampleInfo ''u'' ''nativesaltp'' [])
                  (exampleSession 2))) = ''ns1''"
    by (simp add: usr n3)
  from a b s3 ok c3 show ?thesis by simp
qed

text \<open>
  C7. In a handshake whose first write, read and authentication succeed and whose client
  address the namespace allows (the steps before the check of the cap), a counter of the
  namespace that is at least \<open>maxClientConnections\<close> makes the handshake fail with
  \<open>ErrConCount\<close>; with a counter below the limit, or no counter yet, the handshake goes
  on to write OK and returns what that write returns, which is never \<open>ErrConCount\<close>.
\<close>

theorem connection_cap:
  assumes "clientWrite E PktInitialHandshakeV10 cc = (None, cc1)"
      and "handleHandshakeResponse E m info cc1 = (None, cc2)"
      and "GetNamespace m (namespace cc2) = Some ns"
      and "IsClientIPAllowed E ns (remoteAddr (c cc2))"
  shows "(\<forall>cnt. clientConnecions m (namespace cc2) = Some cnt \<and> maxClientConnections ns \<le> sint cnt \<longrightarrow>
            Handshake E m (Inr info) cc = (Some ErrConCount, cc2)) \<and>
         (clientConnecions m (namespace cc2) = None \<or>
          (\<exists>cnt. clientConnecions m (namespace cc2) = Some cnt \<and> sint cnt < maxClientConnections ns) \<longrightarrow>
            Handshake E m (Inr info) cc = clientWrite E (PktOK (status (executor cc2))) cc2 \<and>
            fst (Handshake E m (Inr info) cc) \<noteq> Some ErrConCount)"
  using assms
  by (auto simp: Handshake_def IsAllowConnect_def clientConnectionReachLimit_def Let_def clientWrite_def)

theorem connection_cap_witness:
  "fst (Handshake (exampleEnv True) (exampleManagerConns (Some 2))
          (Inr (exampleInfo ''u'' ''nativesaltp'' [])) (exampleSession 2)) = Some ErrConCount \<and>
   fst (Handshake (exampleEnv True) (exampleManagerConns (Some 1))
          (Inr (exampleInfo ''u'' ''nativesaltp'' [])) (exampleSession 2)) = None \<and>
   fst (Handshake (exampleEnv True) (exampleManagerConns None)
          (Inr (exampleInfo ''u'' ''nativesaltp'' [])) (exampleSession 2)) = None"
proof -
  let ?E = "exampleEnv True" and ?info = "exampleInfo ''u'' ''nativesaltp'' []"
  define cc1 where "cc1 = snd (clientWrite ?E PktInitialHandshakeV10 (exampleSession 2))"
  define cc2 where
    "cc2 = cc1\<lparr>executor := (executor cc1)\<lparr>user := ''u'', collation := 33, charset := ''utf8'',
                                  db := ''d'', namespace_se := ''ns1''\<rparr>,
               namespace := ''ns1'', c := (c cc1)\<lparr>namespace_c := ''ns1''\<rparr>\<rparr>"
  have w: "clientWrite ?E PktInitialHandshakeV10 (exampleSession 2) = (None, cc1)"
    by (simp add: cc1_def clientWrite_def exampleEnv_def)
  have h: "handleHandshakeResponse ?E (exampleManagerConns cnt) ?info cc1 = (None, cc2)" for cnt
    by (simp add: example_handshake_ok_conns cc2_def)
  have n: "GetNamespace (exampleManagerConns cnt) (namespace cc2) = Some (exampleNamespace ''ns1'' 5)"
    for cnt by (simp add: cc2_def exampleManagerConns_facts)
  have ip: "IsClientIPAllowed ?E (exampleNamespace ''ns1'' 5) (remoteAddr (c cc2))"
    by (simp add: exampleEnv_def)
  have cn: "clientConnecions (exampleManagerConns cnt) (namespace cc2) = cnt" for cnt
    by (simp add: cc2_def exampleManagerConns_facts)
  have mx: "maxClientConnections (exampleNamespace ''ns1'' 5) = 2"
    by (simp add: exampleNamespace_def)
  have wok: "fst (clientWrite ?E pkt cc2) = None" for pkt
    by (simp add: clientWrite_def exampleEnv_def)
  from connection_cap [OF w h n ip, of "Some 2"] cn [of "Some 2"] mx
  have a: "fst (Handshake ?E (exampleManagerConns (Some 2)) (Inr ?info) (exampleSession 2))
             = Some ErrConCount"
    by simp
  from connection_cap [OF w h n ip, of "Some 1"] cn [of "Some 1"] mx wok
  have b: "fst (Handshake ?E (exampleManagerConns (Some 1)) (Inr ?info) (exampleSession 2)) = None"
    by simp
  from connection_cap [OF w h n ip, of None] cn [of None] wok
  have c0: "fst (Handshake ?E (exampleManagerConns None) (Inr ?info) (exampleSession 2)) = None"
    by simp
  from a b c0 show ?thesis by simp
qed

section \<open>Properties of the executor\<close>

lemma setAutoCommitLoop_events:
  "snd (setAutoCommitLoop E conns err evs) = evs @ autoCommittedAndRecycled conns"
  by (induction conns arbitrary: err evs) (auto simp: autoCommittedAndRecycled_def)

lemma status_inTrans_cleared:
  fixes st :: uint16
  shows "(if (st OR 2) AND 1 > 0 then (st OR 2) AND NOT 1 else st OR 2) AND 1 = 0"
  by (simp add: and.assoc word_gt_0)

lemma autocommit_bit_kept: "((st :: uint16) OR 2) AND 2 = 2"
  by (simp add: bit_eq_iff bit_simps)

lemma autocommit_bit_kept_cleared: "(((st :: uint16) OR 2) AND NOT 1) AND 2 = 2"
  by (auto simp add: bit_eq_iff bit_simps)

lemma status_autocommit_set:
  fixes st :: uint16
  shows "(if (st OR 2) AND 1 > 0 then (st OR 2) AND NOT 1 else st OR 2) AND 2 = 2"
proof (cases "(st OR 2) AND 1 > 0")
  case True
  then show ?thesis by (simp only: if_True autocommit_bit_kept_cleared)
next
  case False
  then show ?thesis by (simp only: if_False autocommit_bit_kept)
qed

text \<open>
  C5. After \<open>handleSetAutoCommit(true)\<close>, whether or not a backend call failed,
  \<open>txConns\<close> is empty, the \<open>IN_TRANS\<close> bit of the status is clear, the
  \<open>AUTOCOMMIT\<close> bit is set, and every connection that was in \<open>txConns\<close> has been
  recycled: the backend saw, for each of them in turn, \<open>SetAutoCommit(1)\<close> and
  \<open>Recycle\<close>.
\<close>

theorem handleSetAutoCommit_true:
  "txConns (snd (handleSetAutoCommit E True se)) = [] \<and>
   status (snd (handleSetAutoCommit E True se)) AND ServerStatusInTrans = 0 \<and>
   status (snd (handleSetAutoCommit E True se)) AND ServerStatusAutocommit = ServerStatusAutocommit \<and>
   backend (snd (handleSetAutoCommit E True se)) =
     backend se @ autoCommittedAndRecycled (txConns se) \<and>
   (\<forall>pc \<in> snd ` set (txConns se).
      ConnRecycle pc \<in> set (backend (snd (handleSetAutoCommit E True se))))"
proof -
  obtain err evs where l: "setAutoCommitLoop E (txConns se) None (backend se) = (err, evs)"
    by (cases "setAutoCommitLoop E (txConns se) None (backend se)")
  from setAutoCommitLoop_events [of E "txConns se" None "backend se"] l
  have evs: "evs = backend se @ autoCommittedAndRecycled (txConns se)" by simp
  have r: "snd (handleSetAutoCommit E True se) =
             se\<lparr>status := (if (status se OR 2) AND 1 > 0 then (status se OR 2) AND NOT 1
                               else status se OR 2),
                backend := evs, txConns := []\<rparr>"
    by (simp only: handleSetAutoCommit_def Let_def l ServerStatusAutocommit_def
        ServerStatusInTrans_def if_True prod.case snd_conv)
  have rec: "\<forall>pc \<in> snd ` set (txConns se). ConnRecycle pc \<in> set evs"
    unfolding evs by (force simp: autoCommittedAndRecycled_def)
  show ?thesis
    unfolding r ServerStatusAutocommit_def ServerStatusInTrans_def
    using rec evs status_inTrans_cleared [of "status se"] status_autocommit_set [of "status se"]
    by (simp del: bit.compl_one)
qed

theorem handleSetAutoCommit_true_witness:
  "txConns (snd (handleSetAutoCommit (exampleEnv True) True (exampleExecutor 3))) = [] \<and>
   status (snd (handleSetAutoCommit (exampleEnv True) True (exampleExecutor 3))) = 2 \<and>
   backend (snd (handleSetAutoCommit (exampleEnv True) True (exampleExecutor 3))) =
     [ConnSetAutoCommit 1 1, ConnRecycle 1, ConnSetAutoCommit 2 1, ConnRecycle 2] \<and>
   ConnRecycle 1 \<in> set (backend (snd (handleSetAutoCommit (exampleEnv True) True (exampleExecutor 3)))) \<and>
   ConnRecycle 2 \<in> set (backend (snd (handleSetAutoCommit (exampleEnv True) True (exampleExecutor 3))))"
proof -
  have st: "status (snd (handleSetAutoCommit (exampleEnv True) True (exampleExecutor 3))) = 2"
    by (simp add: handleSetAutoCommit_def exampleExecutor_def Let_def ServerStatusAutocommit_def
        ServerStatusInTrans_def split: prod.splits)
  from handleSetAutoCommit_true [of "exampleEnv True" "exampleExecutor 3"] st
  show ?thesis
    by (simp add: exampleExecutor_def autoCommittedAndRecycled_def)
qed

lemma writeResponse_session_close:
  "fst (writeResponse E (CreateErrorResponse st (SessionCloseRespError e)) cc) =
     Some (SessionCloseRespError e)"
  by (simp add: writeResponse_def writeResponseBody_def CreateErrorResponse_def split: prod.splits)

lemma writeResponse_qps_plain:
  "fst (writeResponse E (CreateErrorResponse st ErrClientQpsLimitedMsg) cc) =
     map_option OtherError (sockErr E (length (out (c cc))))"
  by (simp add: writeResponse_def writeResponseBody_def CreateErrorResponse_def clientWrite_def
      split: prod.splits)

text \<open>
  C2 (amended). With \<open>clientQPSLimit > 0\<close>:
  \<^item> \<open>supportLimitTx\<close>, in a transaction, bucket empty: \<open>handleQuery\<close> returns
    \<open>ErrClientQpsLimitedMsg\<close> wrapped as a session-close error and does not execute;
  \<^item> not in a transaction, bucket empty, whatever \<open>supportLimitTx\<close> is:
    \<open>handleQuery\<close> returns the plain \<open>ErrClientQpsLimitedMsg\<close> and does not execute;
  \<^item> in every other case (a token is there, or \<open>supportLimitTx\<close> is off and the
    session is in a transaction) the query is executed; a token is taken unless the
    limiter was not consulted.
  Writing the response of the wrapped error always returns that error, which makes the
  loop of \<open>Run\<close> close the session; writing the response of the plain error returns
  only what the socket returns.
\<close>

theorem handleQuery_qps_limit:
  assumes "GetNamespace m (namespace_se (executor cc)) = Some ns"
      and "clientQPSLimit ns > 0"
  shows "(supportLimitTx ns \<and> isInTransaction E (executor cc) \<and> tokens = 0 \<longrightarrow>
            handleQuery E m tokens sql cc =
              ((None, Some (SessionCloseRespError ErrClientQpsLimitedMsg)), 0, cc)) \<and>
         (\<not> isInTransaction E (executor cc) \<and> tokens = 0 \<longrightarrow>
            handleQuery E m tokens sql cc = ((None, Some ErrClientQpsLimitedMsg), 0, cc)) \<and>
         (tokens > 0 \<or> (\<not> supportLimitTx ns \<and> isInTransaction E (executor cc)) \<longrightarrow>
            handleQuery E m tokens sql cc =
              (case handleQuery_execute E ns (NewRequestContext E) (TrimRight_semicolon sql) cc of
                 (res, cc1) \<Rightarrow>
                   (res,
                    if \<not> supportLimitTx ns \<and> isInTransaction E (executor cc) then tokens
                    else tokens - 1,
                    cc1))) \<and>
         fst (writeResponse E (CreateErrorResponse st (SessionCloseRespError ErrClientQpsLimitedMsg)) cc0)
           = Some (SessionCloseRespError ErrClientQpsLimitedMsg) \<and>
         fst (writeResponse E (CreateErrorResponse st ErrClientQpsLimitedMsg) cc0)
           = map_option OtherError (sockErr E (length (out (c cc0))))"
  using assms
  by (auto simp: handleQuery_def Allow_def Let_def writeResponse_session_close
      writeResponse_qps_plain split: prod.splits)

theorem handleQuery_qps_limit_witness:
  "handleQuery (exampleEnv True) (exampleManager 5 False) 0 ''select 1;'' (exampleSession 3) =
     ((None, Some (SessionCloseRespError ErrClientQpsLimitedMsg)), 0, exampleSession 3) \<and>
   handleQuery (exampleEnv True) (exampleManager 5 False) 0 ''select 1;'' (exampleSession 2) =
     ((None, Some ErrClientQpsLimitedMsg), 0, exampleSession 2) \<and>
   handleQuery (exampleEnv True) (exampleManager 5 False) 1 ''select 1;'' (exampleSession 2) =
     (case handleQuery_execute (exampleEnv True) (exampleNamespace ''ns1'' 5) [] ''select 1''
             (exampleSession 2) of
        (res, cc1) \<Rightarrow> (res, 0, cc1))"
proof -
  let ?E = "exampleEnv True" and ?m = "exampleManager 5 False"
  have ns: "GetNamespace ?m (namespace_se (executor (exampleSession st))) =
              Some (exampleNamespace ''ns1'' 5)" for st
    by (simp add: exampleSession_def exampleExecutor_def exampleManager_GetNamespace)
  have lim: "clientQPSLimit (exampleNamespace ''ns1'' 5) > 0"
    and sup: "supportLimitTx (exampleNamespace ''ns1'' 5)"
    by (simp_all add: exampleNamespace_def)
  have t3: "isInTransaction ?E (executor (exampleSession 3))"
    by (simp add: exampleEnv_def exampleSession_def exampleExecutor_def ServerStatusInTrans_def)
  have t2: "\<not> isInTransaction ?E (executor (exampleSession 2))"
    by (simp add: exampleEnv_def exampleSession_def exampleExecutor_def ServerStatusInTrans_def)
  have ctx: "NewRequestContext ?E = []" by (simp add: exampleEnv_def)
  have trim: "TrimRight_semicolon ''select 1;'' = ''select 1''"
    by (simp add: TrimRight_semicolon_def)
  from handleQuery_qps_limit [OF ns [of 3] lim, where E = ?E and tokens = 0 and sql = "''select 1;''"] sup t3
  have a: "handleQuery ?E ?m 0 ''select 1;'' (exampleSession 3) =
             ((None, Some (SessionCloseRespError ErrClientQpsLimitedMsg)), 0, exampleSession 3)"
    by simp
  from handleQuery_qps_limit [OF ns [of 2] lim, where E = ?E and tokens = 0 and sql = "''select 1;''"] t2
  have b: "handleQuery ?E ?m 0 ''select 1;'' (exampleSession 2) =
             ((None, Some ErrClientQpsLimitedMsg), 0, exampleSession 2)"
    by simp
  from handleQuery_qps_limit [OF ns [of 2] lim, where E = ?E and tokens = 1 and sql = "''select 1;''"] sup
  have c1: "handleQuery ?E ?m 1 ''select 1;'' (exampleSession 2) =
     (case handleQuery_execute ?E (exampleNamespace ''ns1'' 5) [] ''select 1'' (exampleSession 2) of
        (res, cc1) \<Rightarrow> (res, 0, cc1))"
    by (simp add: ctx trim)
  from a b c1 show ?thesis by simp
qed

text \<open>
  The claim as stated lets every query execute that is neither limited inside a
  transaction under \<open>supportLimitTx\<close> nor limited outside one without it. With
  \<open>supportLimitTx\<close> on, outside a transaction and with the bucket empty, the query
  is refused all the same, though executing it would have succeeded.
\<close>

theorem handleQuery_limits_outside_transaction:
  "clientQPSLimit (exampleNamespace ''ns1'' 5) > 0 \<and>
   supportLimitTx (exampleNamespace ''ns1'' 5) \<and>
   \<not> isInTransaction (exampleEnv True) (executor (exampleSession 2)) \<and>
   GetNamespace (exampleManager 5 False) (namespace_se (executor (exampleSession 2))) =
     Some (exampleNamespace ''ns1'' 5) \<and>
   handleQuery (exampleEnv True) (exampleManager 5 False) 0 ''select 1'' (exampleSession 2) =
     ((None, Some ErrClientQpsLimitedMsg), 0, exampleSession 2) \<and>
   fst (handleQuery_execute (exampleEnv True) (exampleNamespace ''ns1'' 5) [] ''select 1''
          (exampleSession 2)) = (Some (Result ''select 3''), None)"
  by (simp add: handleQuery_def handleQuery_execute_def doMultiStmts_def Allow_def
      exampleManager_GetNamespace TrimRight_semicolon_def
      exampleNamespace_def exampleEnv_def exampleSession_def exampleExecutor_def exampleConn_def
      recycleReadEarly_def writeResponse_def writeResponseBody_def clientWrite_def
      CreateResultResponse_def ServerStatusInTrans_def ServerMoreResultsExists_def
      ClientMultiStatements_def Let_def)

lemma writeResponse_result:
  assumes "writeResponse E (RespResult st r False) cc = (err, cc2)"
  shows "\<exists>pkt. out (c cc2) = out (c cc) @ [pkt] \<and> pkt_status pkt = Some st \<and> pkt_result pkt = r"
  using assms
  by (auto simp: writeResponse_def writeResponseBody_def clientWrite_def
      split: prod.splits option.splits)

lemma multiLoop_spec:
  "spec_multi E sql pieces reqCtx cc = Some (ws, r, cc') \<Longrightarrow>
   index + length pieces = stmtsNum \<Longrightarrow>
   multiLoop E sql stmtsNum index pieces reqCtx r0 cc = ((r, None), cc') \<and>
   length ws = length pieces - 1 \<and>
   (\<forall>w \<in> set ws. fst w AND ServerMoreResultsExists = ServerMoreResultsExists) \<and>
   (\<exists>reqCtxN ccN reqCtxN'. doQuery E reqCtxN (last pieces) ccN = ((r, None), reqCtxN', cc')) \<and>
   (doQuery_silent E \<longrightarrow>
      map (\<lambda>p. (pkt_status p, pkt_result p)) (out (c cc')) =
        map (\<lambda>p. (pkt_status p, pkt_result p)) (out (c cc)) @ map (\<lambda>(st, res). (Some st, res)) ws)"
proof (induction E sql pieces reqCtx cc arbitrary: ws r cc' index r0 rule: spec_multi.induct)
  case (1 E sql reqCtx cc)
  then show ?case by simp
next
  case (2 E sql piece reqCtx cc)
  from "2.prems"(1) obtain reqCtx1 where
    d: "doQuery E (setContextSQLFingerprint E reqCtx sql) piece cc = ((r, None), reqCtx1, cc')"
    and ws: "ws = []"
    by (auto split: prod.splits option.splits)
  have idx: "\<not> int index < int stmtsNum - 1" using "2.prems"(2) by simp
  have silent: "doQuery_silent E \<longrightarrow> out (c cc') = out (c cc)"
    using d unfolding doQuery_silent_def by (metis snd_conv)
  have "\<exists>reqCtxN ccN reqCtxN'. doQuery E reqCtxN (last [piece]) ccN = ((r, None), reqCtxN', cc')"
    using d by auto
  then show ?case using d ws idx silent by simp
next
  case (3 E sql piece v va reqCtx cc)
  from "3.prems"(1) obtain r1 reqCtx1 cc1 cc2 ws1 where
    d: "doQuery E (setContextSQLFingerprint E reqCtx sql) piece cc = ((r1, None), reqCtx1, cc1)"
    and w: "writeResponse E (RespResult (status (executor cc1) OR ServerMoreResultsExists) r1 False) cc1
              = (None, cc2)"
    and rest: "spec_multi E sql (v # va) reqCtx1 cc2 = Some (ws1, r, cc')"
    and ws: "ws = (status (executor cc1) OR ServerMoreResultsExists, r1) # ws1"
    by (auto split: prod.splits option.splits)
  have idx: "int index < int stmtsNum - 1" using "3.prems"(2) by simp
  have idx': "(index + 1) + length (v # va) = stmtsNum" using "3.prems"(2) by simp
  note IH = "3.IH" [OF d [symmetric] refl refl refl w [symmetric] refl rest idx', of r1]
  have bit: "(status (executor cc1) OR ServerMoreResultsExists) AND ServerMoreResultsExists
               = ServerMoreResultsExists"
    by simp
  from writeResponse_result [OF w] obtain pkt where
    p: "out (c cc2) = out (c cc1) @ [pkt]"
       "pkt_status pkt = Some (status (executor cc1) OR ServerMoreResultsExists)"
       "pkt_result pkt = r1"
    by blast
  have silent: "doQuery_silent E \<longrightarrow> out (c cc1) = out (c cc)"
    using d unfolding doQuery_silent_def by (metis snd_conv)
  show ?case
    using d w idx IH ws bit p silent
    by (simp add: CreateResultResponse_def)
qed

lemma example_spec_multi:
  "spec_multi (exampleEnv True) ''select 1;select 2;select 3''
     [''select 1'', ''select 2'', ''select 3''] [] (recycleReadEarly (exampleSession 2)) =
   Some ([(10, Some (Result ''select 1'')), (10, Some (Result ''select 2''))],
         Some (Result ''select 3''),
         (exampleSession 2)\<lparr>c := exampleConn
            \<lparr>hasRecycledReadPacket := True,
             out := [PktResult 10 (Result ''select 1''), PktResult 10 (Result ''select 2'')],
             recycledReads := 1\<rparr>\<rparr>)"
  by (simp add: exampleEnv_def exampleSession_def exampleConn_def exampleExecutor_def
      recycleReadEarly_def writeResponse_def writeResponseBody_def clientWrite_def
      ServerMoreResultsExists_def)

lemma exampleEnv_silent: "doQuery_silent (exampleEnv keep)"
  by (simp add: doQuery_silent_def exampleEnv_def)

text \<open>
  C8. When the namespace allows multi-statement queries and the client negotiated
  \<open>CLIENT_MULTI_STATEMENTS\<close>, \<open>handleQuery\<close> hands the query to \<open>doMultiStmts\<close>.
  When the split yields more than one piece and every piece executes and every
  intermediate write succeeds (\<open>spec_multi\<close> is defined), \<open>doMultiStmts\<close> returns the
  result of the final piece with no error, in the session as the execution of the final
  piece left it (nothing is written for it and its status is not touched); one response
  is written for each of the other pieces, each with \<open>MORE_RESULTS_EXISTS\<close> set in its
  status; and, executing a piece being silent on the client connection, the packets
  added to the connection carry exactly those statuses and results, in statement order.
\<close>

theorem doMultiStmts_more_results:
  assumes "SplitStatementToPieces E sql = Inr pieces"
      and "length pieces > 1"
      and "spec_multi E sql pieces reqCtx (recycleReadEarly cc) = Some (ws, r, cc')"
  shows "(supportMultiQuery ns \<and> capability (c cc) AND ClientMultiStatements \<noteq> 0 \<longrightarrow>
            handleQuery_execute E ns reqCtx sql cc = doMultiStmts E reqCtx sql cc) \<and>
         doMultiStmts E reqCtx sql cc = ((r, None), cc') \<and>
         length ws = length pieces - 1 \<and>
         (\<forall>w \<in> set ws. fst w AND ServerMoreResultsExists = ServerMoreResultsExists) \<and>
         (\<exists>reqCtxN ccN reqCtxN'.
            doQuery E reqCtxN (last pieces) ccN = ((r, None), reqCtxN', cc')) \<and>
         (doQuery_silent E \<longrightarrow>
            map (\<lambda>p. (pkt_status p, pkt_result p)) (out (c cc')) =
              map (\<lambda>p. (pkt_status p, pkt_result p)) (out (c cc)) @
              map (\<lambda>(st, res). (Some st, res)) ws)"
proof -
  have n: "length pieces \<noteq> 1" using assms(2) by simp
  have o: "out (c (recycleReadEarly cc)) = out (c cc)"
    by (simp add: recycleReadEarly_def)
  have d: "doMultiStmts E reqCtx sql cc =
             multiLoop E sql (length pieces) 0 pieces reqCtx None (recycleReadEarly cc)"
    using assms(1) n by (simp add: doMultiStmts_def Let_def)
  from multiLoop_spec [OF assms(3), of 0 "length pieces" None] d o
  show ?thesis by (simp add: handleQuery_execute_def)
qed

theorem doMultiStmts_more_results_witness:
  "handleQuery_execute (exampleEnv True) (exampleNamespace ''ns1'' 5) []
       ''select 1;select 2;select 3'' (exampleSession 2) =
     doMultiStmts (exampleEnv True) [] ''select 1;select 2;select 3'' (exampleSession 2) \<and>
   doMultiStmts (exampleEnv True) [] ''select 1;select 2;select 3'' (exampleSession 2) =
     ((Some (Result ''select 3''), None),
      (exampleSession 2)\<lparr>c := exampleConn
            \<lparr>hasRecycledReadPacket := True,
             out := [PktResult 10 (Result ''select 1''), PktResult 10 (Result ''select 2'')],
             recycledReads := 1\<rparr>\<rparr>) \<and>
   (10 :: uint16) AND ServerMoreResultsExists = ServerMoreResultsExists \<and>
   status (executor (exampleSession 2)) = 2 \<and>
   map (\<lambda>p. (pkt_status p, pkt_result p))
     (out (c (snd (doMultiStmts (exampleEnv True) [] ''select 1;select 2;select 3''
                     (exampleSession 2))))) =
     [(Some 10, Some (Result ''select 1'')), (Some 10, Some (Result ''select 2''))]"
proof -
  have s: "SplitStatementToPieces (exampleEnv True) ''select 1;select 2;select 3'' =
             Inr [''select 1'', ''select 2'', ''select 3'']"
    by (simp add: exampleEnv_def)
  have l: "length [''select 1'', ''select 2'', ''select 3''] > 1" by simp
  have multi: "supportMultiQuery (exampleNamespace ''ns1'' 5) \<and>
               capability (c (exampleSession 2)) AND ClientMultiStatements \<noteq> 0"
    by (simp add: exampleNamespace_def exampleSession_def exampleConn_def ClientMultiStatements_def)
  have o: "out (c (exampleSession 2)) = []"
    by (simp add: exampleSession_def exampleConn_def)
  from doMultiStmts_more_results [OF s l example_spec_multi, of "exampleNamespace ''ns1'' 5"]
       multi exampleEnv_silent [of True] o
  show ?thesis
    by (simp add: exampleSession_def exampleExecutor_def)
qed

end
